theory Spec2Isabelle
  imports Main "HOL-Library.Word"
begin

section \<open>AgentBountyBoard: a Dutch-auction job market with token escrow\<close>

text \<open>
  A shallow embedding of the Solidity contract \<open>AgentBountyBoard\<close> (compiler 0.8.20).
  \<^item> \<open>uint256\<close>, \<open>uint8\<close> and \<open>address\<close> are machine words. Solidity 0.8 checks every
    \<open>+\<close>, \<open>-\<close>, \<open>*\<close> and \<open>/\<close>: an overflow, an underflow or a division by zero reverts
    with a \<open>Panic\<close>, and so does an array index out of range.
  \<^item> A call either returns the new state or reverts; a revert undoes every write of the
    call, so a reverted call is \<open>Inl\<close> of the error and carries no state.
  \<^item> \<open>block.timestamp\<close> and \<open>msg.sender\<close> are the fields of the call environment.
  \<^item> \<open>nonReentrant\<close> only matters when the token calls back into the board; the token
    modelled below makes no calls, so the guard never fires and is left out.
\<close>

subsection \<open>Types of the contract\<close>

type_synonym uint256 = "256 word"
type_synonym uint8 = "8 word"
type_synonym address = "160 word"

datatype JobStatus = Open | Claimed | Submitted | Completed | Disputed | Expired | Cancelled

record Job =
  poster :: address
  description :: string
  minPrice :: uint256
  maxPrice :: uint256
  auctionStart :: uint256
  auctionDuration :: uint256
  workDeadline :: uint256
  claimedAt :: uint256
  agent :: address
  agentId :: uint256
  submissionURI :: string
  paidAmount :: uint256
  rating :: uint8
  status :: JobStatus

record AgentStats =
  completedJobs :: uint256
  disputedJobs :: uint256
  totalEarned :: uint256
  totalRating :: uint256

datatype Event =
    JobPosted uint256 address string uint256 uint256 uint256 uint256
  | JobClaimed uint256 address uint256 uint256
  | WorkSubmitted uint256 string
  | WorkApproved uint256 uint8 uint256
  | WorkDisputed uint256
  | JobCancelled uint256
  | JobExpired uint256

text \<open>
  Reverts: \<open>Require msg\<close> is a failed \<open>require(..., msg)\<close>; \<open>Panic code\<close> is a compiler
  check (\<open>0x11 = 17\<close> arithmetic overflow or underflow, \<open>0x12 = 18\<close> division by zero,
  \<open>0x32 = 50\<close> array index out of range); the last two are reverts of the token.
\<close>

datatype error =
    Require string
  | Panic nat
  | ERC20InsufficientBalance
  | ERC20InsufficientAllowance

definition and_then :: "error + 'a \<Rightarrow> ('a \<Rightarrow> error + 'b) \<Rightarrow> error + 'b" where
  "and_then r f = (case r of Inl e \<Rightarrow> Inl e | Inr x \<Rightarrow> f x)"

subsection \<open>Checked arithmetic of Solidity 0.8\<close>

definition checked_add :: "uint256 \<Rightarrow> uint256 \<Rightarrow> error + uint256" where
  "checked_add a b = (if unat a + unat b < 2 ^ 256 then Inr (a + b) else Inl (Panic 17))"

definition checked_sub :: "uint256 \<Rightarrow> uint256 \<Rightarrow> error + uint256" where
  "checked_sub a b = (if b \<le> a then Inr (a - b) else Inl (Panic 17))"

definition checked_mul :: "uint256 \<Rightarrow> uint256 \<Rightarrow> error + uint256" where
  "checked_mul a b = (if unat a * unat b < 2 ^ 256 then Inr (a * b) else Inl (Panic 17))"

definition checked_div :: "uint256 \<Rightarrow> uint256 \<Rightarrow> error + uint256" where
  "checked_div a b = (if b = 0 then Inl (Panic 18) else Inr (a div b))"

subsection \<open>The CLAWD token\<close>

text \<open>
  Modelled from the spec: the CLAWD token, the external ERC-20 contract behind
  \<open>clawd.safeTransfer\<close> and \<open>clawd.safeTransferFrom\<close> (the spec's escrow collaborator:
  "pay X from escrow to Y" instructions that are atomic and fallible). It is a ledger of
  balances and allowances, as the OpenZeppelin \<open>ERC20\<close> of the repository's tests is: a
  transfer reverts when the sender's balance is too small, a \<open>transferFrom\<close> also when
  the allowance given to the spender is too small, and every transfer that is made is
  recorded (the token's \<open>Transfer\<close> event). Balances are natural numbers: the token's
  total supply fits \<open>uint256\<close>, so crediting a receiver never wraps.
\<close>

record Token =
  balanceOf :: "address \<Rightarrow> nat"
  allowance :: "address \<Rightarrow> address \<Rightarrow> nat"
  transfers :: "(address \<times> address \<times> uint256) list"

definition erc20_update :: "address \<Rightarrow> address \<Rightarrow> uint256 \<Rightarrow> Token \<Rightarrow> error + Token" where
  "erc20_update src dst val tok =
     (if balanceOf tok src < unat val then Inl ERC20InsufficientBalance
      else
        let b1 = (balanceOf tok)(src := balanceOf tok src - unat val);
            b2 = b1(dst := b1 dst + unat val)
        in Inr (tok\<lparr>balanceOf := b2, transfers := transfers tok @ [(src, dst, val)]\<rparr>))"

text \<open>\<open>safeTransfer self dst val\<close>: the board (\<open>self\<close>) sends its own tokens.\<close>

definition safeTransfer :: "address \<Rightarrow> address \<Rightarrow> uint256 \<Rightarrow> Token \<Rightarrow> error + Token" where
  "safeTransfer self dst val tok = erc20_update self dst val tok"

text \<open>\<open>safeTransferFrom self src dst val\<close>: the board (\<open>self\<close>) spends \<open>src\<close>'s allowance.\<close>

definition safeTransferFrom ::
    "address \<Rightarrow> address \<Rightarrow> address \<Rightarrow> uint256 \<Rightarrow> Token \<Rightarrow> error + Token" where
  "safeTransferFrom self src dst val tok =
     (if allowance tok src self < unat val then Inl ERC20InsufficientAllowance
      else erc20_update src dst val
             (tok\<lparr>allowance := (allowance tok)
                (src := (allowance tok src)(self := allowance tok src self - unat val))\<rparr>))"

subsection \<open>State of the board and call environment\<close>

text \<open>
  \<open>jobs\<close> and \<open>agentStats\<close> are the contract's storage, \<open>events\<close> its log, \<open>clawd\<close> the
  state of the token contract it was deployed with, \<open>this\<close> its own address.
\<close>

record World =
  jobs :: "Job list"
  agentStats :: "address \<Rightarrow> AgentStats"
  events :: "Event list"
  clawd :: Token
  this :: address

record Env =
  msg_sender :: address
  block_timestamp :: uint256

subsection \<open>Internal: the auction price\<close>

text \<open>\<open>_getCurrentPrice(job)\<close> at \<open>block.timestamp = now\<close>.\<close>

definition getCurrentPrice_internal :: "uint256 \<Rightarrow> Job \<Rightarrow> error + uint256" where
  "getCurrentPrice_internal now job =
     and_then (checked_add (auctionStart job) (auctionDuration job)) (\<lambda>auctionEnd.
       if now \<ge> auctionEnd then Inr (maxPrice job)
       else
         and_then (checked_sub now (auctionStart job)) (\<lambda>elapsed.
         and_then (checked_sub (maxPrice job) (minPrice job)) (\<lambda>range.
         and_then (checked_mul range elapsed) (\<lambda>scaled.
         and_then (checked_div scaled (auctionDuration job)) (\<lambda>quotient.
         checked_add (minPrice job) quotient)))))"

subsection \<open>Poster actions\<close>

definition postJob ::
    "Env \<Rightarrow> string \<Rightarrow> uint256 \<Rightarrow> uint256 \<Rightarrow> uint256 \<Rightarrow> uint256 \<Rightarrow> World
      \<Rightarrow> error + (uint256 \<times> World)" where
  "postJob env descr minP maxP duration deadline w =
     (if \<not> maxP > 0 then Inl (Require ''Max price must be > 0'')
      else if \<not> maxP \<ge> minP then Inl (Require ''Max must be >= min'')
      else if \<not> duration > 0 then Inl (Require ''Auction duration must be > 0'')
      else if \<not> deadline > 0 then Inl (Require ''Work deadline must be > 0'')
      else if \<not> length descr > 0 then Inl (Require ''Description required'')
      else
        and_then (safeTransferFrom (this w) (msg_sender env) (this w) maxP (clawd w)) (\<lambda>tok.
          let jobId = (of_nat (length (jobs w)) :: uint256);
              job = \<lparr>poster = msg_sender env, description = descr,
                     minPrice = minP, maxPrice = maxP,
                     auctionStart = block_timestamp env, auctionDuration = duration,
                     workDeadline = deadline, claimedAt = 0, agent = 0, agentId = 0,
                     submissionURI = [], paidAmount = 0, rating = 0, status = Open\<rparr>
          in Inr (jobId,
                  w\<lparr>jobs := jobs w @ [job], clawd := tok,
                    events := events w @
                      [JobPosted jobId (msg_sender env) descr minP maxP duration deadline]\<rparr>)))"

definition approveWork :: "Env \<Rightarrow> uint256 \<Rightarrow> uint8 \<Rightarrow> World \<Rightarrow> error + World" where
  "approveWork env jobId rating' w =
     (if \<not> unat jobId < length (jobs w) then Inl (Panic 50)
      else
        let job = jobs w ! unat jobId in
        if \<not> msg_sender env = poster job then Inl (Require ''Only poster can approve'')
        else if \<not> status job = Submitted then Inl (Require ''Job not submitted'')
        else if \<not> rating' \<le> 100 then Inl (Require ''Rating must be 0-100'')
        else
          let job' = job\<lparr>status := Completed, rating := rating'\<rparr>;
              stats = agentStats w (agent job')
          in
          and_then (checked_add (completedJobs stats) 1) (\<lambda>completed'.
          and_then (checked_add (totalEarned stats) (paidAmount job')) (\<lambda>earned'.
          and_then (checked_add (totalRating stats) (ucast rating')) (\<lambda>rating_sum'.
          and_then (safeTransfer (this w) (agent job') (paidAmount job') (clawd w)) (\<lambda>tok.
            Inr (w\<lparr>jobs := (jobs w)[unat jobId := job'],
                   agentStats := (agentStats w)(agent job' :=
                     stats\<lparr>completedJobs := completed', totalEarned := earned',
                           totalRating := rating_sum'\<rparr>),
                   clawd := tok,
                   events := events w @ [WorkApproved jobId rating' (paidAmount job')]\<rparr>))))))"

definition disputeWork :: "Env \<Rightarrow> uint256 \<Rightarrow> World \<Rightarrow> error + World" where
  "disputeWork env jobId w =
     (if \<not> unat jobId < length (jobs w) then Inl (Panic 50)
      else
        let job = jobs w ! unat jobId in
        if \<not> msg_sender env = poster job then Inl (Require ''Only poster can dispute'')
        else if \<not> status job = Submitted then Inl (Require ''Job not submitted'')
        else
          let job' = job\<lparr>status := Disputed\<rparr>;
              stats = agentStats w (agent job')
          in
          and_then (checked_add (disputedJobs stats) 1) (\<lambda>disputed'.
          and_then (safeTransfer (this w) (poster job') (paidAmount job') (clawd w)) (\<lambda>tok.
            Inr (w\<lparr>jobs := (jobs w)[unat jobId := job'],
                   agentStats := (agentStats w)(agent job' :=
                     stats\<lparr>disputedJobs := disputed'\<rparr>),
                   clawd := tok,
                   events := events w @ [WorkDisputed jobId]\<rparr>))))"

definition cancelJob :: "Env \<Rightarrow> uint256 \<Rightarrow> World \<Rightarrow> error + World" where
  "cancelJob env jobId w =
     (if \<not> unat jobId < length (jobs w) then Inl (Panic 50)
      else
        let job = jobs w ! unat jobId in
        if \<not> msg_sender env = poster job then Inl (Require ''Only poster can cancel'')
        else if \<not> status job = Open then Inl (Require ''Job not open'')
        else
          let job' = job\<lparr>status := Cancelled\<rparr> in
          and_then (safeTransfer (this w) (poster job') (maxPrice job') (clawd w)) (\<lambda>tok.
            Inr (w\<lparr>jobs := (jobs w)[unat jobId := job'],
                   clawd := tok,
                   events := events w @ [JobCancelled jobId]\<rparr>)))"

subsection \<open>Agent actions\<close>

definition claimJob :: "Env \<Rightarrow> uint256 \<Rightarrow> uint256 \<Rightarrow> World \<Rightarrow> error + World" where
  "claimJob env jobId agentId' w =
     (if \<not> unat jobId < length (jobs w) then Inl (Panic 50)
      else
        let job = jobs w ! unat jobId in
        if \<not> status job = Open then Inl (Require ''Job not open'')
        else if \<not> msg_sender env \<noteq> poster job
          then Inl (Require ''Poster cannot claim own job'')
        else
          and_then (getCurrentPrice_internal (block_timestamp env) job) (\<lambda>currentPrice.
            let job' = job\<lparr>status := Claimed, agent := msg_sender env, agentId := agentId',
                           claimedAt := block_timestamp env, paidAmount := currentPrice\<rparr>
            in
            and_then (checked_sub (maxPrice job') currentPrice) (\<lambda>refund.
            and_then (if refund > 0 then safeTransfer (this w) (poster job') refund (clawd w)
                      else Inr (clawd w)) (\<lambda>tok.
              Inr (w\<lparr>jobs := (jobs w)[unat jobId := job'],
                     clawd := tok,
                     events := events w @
                       [JobClaimed jobId (msg_sender env) agentId' currentPrice]\<rparr>)))))"

definition submitWork :: "Env \<Rightarrow> uint256 \<Rightarrow> string \<Rightarrow> World \<Rightarrow> error + World" where
  "submitWork env jobId uri w =
     (if \<not> unat jobId < length (jobs w) then Inl (Panic 50)
      else
        let job = jobs w ! unat jobId in
        if \<not> msg_sender env = agent job then Inl (Require ''Only assigned agent'')
        else if \<not> status job = Claimed then Inl (Require ''Job not claimed'')
        else if \<not> length uri > 0 then Inl (Require ''Submission URI required'')
        else
          and_then (checked_add (claimedAt job) (workDeadline job)) (\<lambda>deadline.
            if \<not> block_timestamp env \<le> deadline then Inl (Require ''Work deadline passed'')
            else
              let job' = job\<lparr>status := Submitted, submissionURI := uri\<rparr> in
              Inr (w\<lparr>jobs := (jobs w)[unat jobId := job'],
                     events := events w @ [WorkSubmitted jobId uri]\<rparr>)))"

subsection \<open>Housekeeping\<close>

definition expireJob :: "Env \<Rightarrow> uint256 \<Rightarrow> World \<Rightarrow> error + World" where
  "expireJob env jobId w =
     (if \<not> unat jobId < length (jobs w) then Inl (Panic 50)
      else
        let job = jobs w ! unat jobId in
        if \<not> status job = Claimed then Inl (Require ''Job not in claimed state'')
        else
          and_then (checked_add (claimedAt job) (workDeadline job)) (\<lambda>deadline.
            if \<not> block_timestamp env > deadline then Inl (Require ''Deadline not yet passed'')
            else
              let job' = job\<lparr>status := Expired\<rparr> in
              and_then (safeTransfer (this w) (poster job') (paidAmount job') (clawd w)) (\<lambda>tok.
                Inr (w\<lparr>jobs := (jobs w)[unat jobId := job'],
                       clawd := tok,
                       events := events w @ [JobExpired jobId]\<rparr>))))"

subsection \<open>View functions\<close>

definition getCurrentPrice :: "Env \<Rightarrow> uint256 \<Rightarrow> World \<Rightarrow> error + uint256" where
  "getCurrentPrice env jobId w =
     (if \<not> unat jobId < length (jobs w) then Inl (Require ''Job does not exist'')
      else getCurrentPrice_internal (block_timestamp env) (jobs w ! unat jobId))"

definition getJobCount :: "World \<Rightarrow> uint256" where
  "getJobCount w = of_nat (length (jobs w))"

definition getAgentStats :: "address \<Rightarrow> World \<Rightarrow> uint256 \<times> uint256 \<times> uint256 \<times> uint256" where
  "getAgentStats a w =
     (let stats = agentStats w a;
          avg = (if completedJobs stats > 0 then totalRating stats div completedJobs stats
                 else 0)
      in (completedJobs stats, disputedJobs stats, totalEarned stats, avg))"

subsection \<open>The price as the specification words it\<close>

text \<open>
  The specification's \<open>currentPrice\<close>, over the integers:
  \<open>elapsed = clamp(now - auctionStart, 0, auctionDuration)\<close> and
  \<open>price = minPrice + (maxPrice - minPrice) * elapsed / auctionDuration\<close>, the division
  truncating toward zero.
\<close>

definition clamp :: "int \<Rightarrow> int \<Rightarrow> int \<Rightarrow> int" where
  "clamp x lo hi = max lo (min hi x)"

definition trunc_div :: "int \<Rightarrow> int \<Rightarrow> int" where
  "trunc_div a b = (if (a < 0) = (b < 0) then \<bar>a\<bar> div \<bar>b\<bar> else - (\<bar>a\<bar> div \<bar>b\<bar>))"

definition spec_elapsed :: "Job \<Rightarrow> uint256 \<Rightarrow> int" where
  "spec_elapsed job now = clamp (uint now - uint (auctionStart job)) 0 (uint (auctionDuration job))"

definition spec_currentPrice :: "Job \<Rightarrow> uint256 \<Rightarrow> int" where
  "spec_currentPrice job now =
     uint (minPrice job) +
     trunc_div ((uint (maxPrice job) - uint (minPrice job)) * spec_elapsed job now)
               (uint (auctionDuration job))"

text \<open>
  When the checked arithmetic of \<open>_getCurrentPrice\<close> goes through at time \<open>now\<close>: the
  clock is not before the start of the auction, the end of the auction fits \<open>uint256\<close>,
  and, before that end, so does the product \<open>range * elapsed\<close>.
\<close>

definition price_defined :: "Job \<Rightarrow> uint256 \<Rightarrow> bool" where
  "price_defined job now \<longleftrightarrow>
     unat (auctionStart job) \<le> unat now \<and>
     unat (auctionStart job) + unat (auctionDuration job) < 2 ^ 256 \<and>
     (unat now < unat (auctionStart job) + unat (auctionDuration job) \<longrightarrow>
        (unat (maxPrice job) - unat (minPrice job)) * (unat now - unat (auctionStart job))
          < 2 ^ 256)"

subsection \<open>Calls, transactions and runs\<close>

text \<open>
  The constructor leaves the board without jobs, statistics or events; \<open>self\<close> is the
  address it is deployed at and \<open>tok\<close> the state of the token at that moment.
\<close>

definition deployed :: "address \<Rightarrow> Token \<Rightarrow> World" where
  "deployed self tok =
     \<lparr>jobs = [],
      agentStats = (\<lambda>_. \<lparr>completedJobs = 0, disputedJobs = 0, totalEarned = 0, totalRating = 0\<rparr>),
      events = [], clawd = tok, this = self\<rparr>"

datatype Call =
    PostJob string uint256 uint256 uint256 uint256
  | ApproveWork uint256 uint8
  | DisputeWork uint256
  | CancelJob uint256
  | ClaimJob uint256 uint256
  | SubmitWork uint256 string
  | ExpireJob uint256

fun exec :: "Env \<Rightarrow> Call \<Rightarrow> World \<Rightarrow> error + World" where
  "exec env (PostJob descr minP maxP duration deadline) w =
     and_then (postJob env descr minP maxP duration deadline w) (\<lambda>r. Inr (snd r))"
| "exec env (ApproveWork jobId rating') w = approveWork env jobId rating' w"
| "exec env (DisputeWork jobId) w = disputeWork env jobId w"
| "exec env (CancelJob jobId) w = cancelJob env jobId w"
| "exec env (ClaimJob jobId agentId') w = claimJob env jobId agentId' w"
| "exec env (SubmitWork jobId uri) w = submitWork env jobId uri w"
| "exec env (ExpireJob jobId) w = expireJob env jobId w"

text \<open>A transaction: the call's new state, or the old state when the call reverts.\<close>

definition transact :: "Env \<Rightarrow> Call \<Rightarrow> World \<Rightarrow> World" where
  "transact env c w = (case exec env c w of Inl e \<Rightarrow> w | Inr w' \<Rightarrow> w')"

fun run :: "(Env \<times> Call) list \<Rightarrow> World \<Rightarrow> World" where
  "run [] w = w"
| "run (ec # cs) w = run cs (transact (fst ec) (snd ec) w)"

text \<open>The outcome of each call of a run: \<open>None\<close> for success, the error of a revert.\<close>

fun outcomes :: "(Env \<times> Call) list \<Rightarrow> World \<Rightarrow> error option list" where
  "outcomes [] w = []"
| "outcomes (ec # cs) w =
     (case exec (fst ec) (snd ec) w of Inl e \<Rightarrow> Some e | Inr w' \<Rightarrow> None)
       # outcomes cs (transact (fst ec) (snd ec) w)"

text \<open>The job a call addresses (\<open>postJob\<close> creates one and addresses none).\<close>

fun target :: "Call \<Rightarrow> uint256 option" where
  "target (PostJob descr minP maxP duration deadline) = None"
| "target (ApproveWork jobId rating') = Some jobId"
| "target (DisputeWork jobId) = Some jobId"
| "target (CancelJob jobId) = Some jobId"
| "target (ClaimJob jobId agentId') = Some jobId"
| "target (SubmitWork jobId uri) = Some jobId"
| "target (ExpireJob jobId) = Some jobId"

text \<open>The calls of a race: each racer, with its agent id, calls \<open>claimJob\<close> on the same job.\<close>

definition claim_calls :: "uint256 \<Rightarrow> (Env \<times> uint256) list \<Rightarrow> (Env \<times> Call) list" where
  "claim_calls jobId cs = map (\<lambda>ea. (fst ea, ClaimJob jobId (snd ea))) cs"

subsection \<open>Escrow accounting\<close>

definition terminal :: "JobStatus \<Rightarrow> bool" where
  "terminal s \<longleftrightarrow> s = Completed \<or> s = Disputed \<or> s = Expired \<or> s = Cancelled"

text \<open>
  The part of a job's \<open>maxPrice\<close> that the board still holds for it: all of it while the
  job is open, the locked claim price while it is claimed or submitted, nothing once it
  is completed, disputed, expired or cancelled.
\<close>

definition escrowed :: "Job \<Rightarrow> nat" where
  "escrowed job =
     (case status job of
        Open \<Rightarrow> unat (maxPrice job)
      | Claimed \<Rightarrow> unat (paidAmount job)
      | Submitted \<Rightarrow> unat (paidAmount job)
      | Completed \<Rightarrow> 0 | Disputed \<Rightarrow> 0 | Expired \<Rightarrow> 0 | Cancelled \<Rightarrow> 0)"

text \<open>
  The tokens the board sent away during a call that led from \<open>w\<close> to \<open>w'\<close>: the amounts
  of the transfers the token recorded in between whose sender is the board.
\<close>

definition sent_by_board :: "World \<Rightarrow> World \<Rightarrow> nat" where
  "sent_by_board w w' =
     sum_list (map (\<lambda>t. unat (snd (snd t)))
       (filter (\<lambda>t. fst t = this w)
         (drop (length (transfers (clawd w))) (transfers (clawd w')))))"

text \<open>
  What a run has paid out or refunded on account of job \<open>j\<close>: the tokens sent by the
  board during the calls of the run that address \<open>j\<close>.
\<close>

fun paid_out :: "nat \<Rightarrow> (Env \<times> Call) list \<Rightarrow> World \<Rightarrow> nat" where
  "paid_out j [] w = 0"
| "paid_out j (ec # cs) w =
     (if map_option unat (target (snd ec)) = Some j
      then sent_by_board w (transact (fst ec) (snd ec) w) else 0)
     + paid_out j cs (transact (fst ec) (snd ec) w)"

text \<open>
  Every party to a job is someone other than the board itself: the poster always, the
  agent once the job is claimed.
\<close>

definition parties_external :: "World \<Rightarrow> bool" where
  "parties_external w \<longleftrightarrow>
     (\<forall>job \<in> set (jobs w).
        poster job \<noteq> this w \<and>
        (status job = Claimed \<or> status job = Submitted \<longrightarrow> agent job \<noteq> this w))"

subsection \<open>Example states\<close>

text \<open>
  The scenario of the repository's tests: the board at address \<open>99\<close>, the poster \<open>1\<close>
  with 10000 tokens of which the board may spend 200, the agents \<open>2\<close> and \<open>3\<close>. The
  poster posts a job with prices 100 to 200 over 60 seconds at time 1000; agent \<open>2\<close>
  claims it at time 1030, submits, and the poster approves with rating 90.
\<close>

definition env_at :: "address \<Rightarrow> uint256 \<Rightarrow> Env" where
  "env_at sender now = \<lparr>msg_sender = sender, block_timestamp = now\<rparr>"

definition no_stats :: "address \<Rightarrow> AgentStats" where
  "no_stats = (\<lambda>_. \<lparr>completedJobs = 0, disputedJobs = 0, totalEarned = 0, totalRating = 0\<rparr>)"

definition ex_token :: Token where
  "ex_token =
     \<lparr>balanceOf = (\<lambda>_. 0)(1 := 10000, 2 := 1000, 3 := 1000),
      allowance = (\<lambda>_. (\<lambda>_. 0))(1 := (\<lambda>_. 0)(99 := 200)),
      transfers = []\<rparr>"

definition ex_job :: Job where
  "ex_job =
     \<lparr>poster = 1, description = ''Test'', minPrice = 100, maxPrice = 200,
      auctionStart = 1000, auctionDuration = 60, workDeadline = 300, claimedAt = 0,
      agent = 0, agentId = 0, submissionURI = [], paidAmount = 0, rating = 0,
      status = Open\<rparr>"

definition ex_posted :: World where
  "ex_posted =
     \<lparr>jobs = [ex_job],
      agentStats = no_stats,
      events = [JobPosted 0 1 ''Test'' 100 200 60 300],
      clawd = \<lparr>balanceOf = (\<lambda>_. 0)(1 := 9800, 2 := 1000, 3 := 1000, 99 := 200),
               allowance = (\<lambda>_. (\<lambda>_. 0))(1 := (\<lambda>_. 0)(99 := 0)),
               transfers = [(1, 99, 200)]\<rparr>,
      this = 99\<rparr>"

definition ex_claimed_job :: Job where
  "ex_claimed_job =
     ex_job\<lparr>status := Claimed, agent := 2, agentId := 21548, claimedAt := 1030,
            paidAmount := 150\<rparr>"

definition ex_claimed :: World where
  "ex_claimed =
     ex_posted\<lparr>jobs := [ex_claimed_job],
       events := [JobPosted 0 1 ''Test'' 100 200 60 300, JobClaimed 0 2 21548 150],
       clawd := \<lparr>balanceOf = (\<lambda>_. 0)(1 := 9850, 2 := 1000, 3 := 1000, 99 := 150),
                 allowance = (\<lambda>_. (\<lambda>_. 0))(1 := (\<lambda>_. 0)(99 := 0)),
                 transfers = [(1, 99, 200), (99, 1, 50)]\<rparr>\<rparr>"

definition ex_submitted :: World where
  "ex_submitted =
     ex_claimed\<lparr>jobs := [ex_claimed_job\<lparr>status := Submitted, submissionURI := ''ipfs://x''\<rparr>],
       events := [JobPosted 0 1 ''Test'' 100 200 60 300, JobClaimed 0 2 21548 150,
                  WorkSubmitted 0 ''ipfs://x'']\<rparr>"

definition ex_completed :: World where
  "ex_completed =
     ex_submitted\<lparr>jobs := [ex_claimed_job\<lparr>status := Completed, submissionURI := ''ipfs://x'',
                                         rating := 90\<rparr>],
       agentStats := no_stats
          (2 := \<lparr>completedJobs = 1, disputedJobs = 0, totalEarned = 150, totalRating = 90\<rparr>),
       events := [JobPosted 0 1 ''Test'' 100 200 60 300, JobClaimed 0 2 21548 150,
                  WorkSubmitted 0 ''ipfs://x'', WorkApproved 0 90 150],
       clawd := \<lparr>balanceOf = (\<lambda>_. 0)(1 := 9850, 2 := 1150, 3 := 1000, 99 := 0),
                 allowance = (\<lambda>_. (\<lambda>_. 0))(1 := (\<lambda>_. 0)(99 := 0)),
                 transfers = [(1, 99, 200), (99, 1, 50), (99, 2, 150)]\<rparr>\<rparr>"

text \<open>
  A job posted with the largest \<open>auctionDuration\<close> that \<open>postJob\<close> accepts,
  \<open>2^256 - 1\<close>: the end of its auction does not fit \<open>uint256\<close>.
\<close>

definition max_uint256 :: uint256 where
  "max_uint256 = 115792089237316195423570985008687907853269984665640564039457584007913129639935"

definition cx_long_job :: Job where
  "cx_long_job = ex_job\<lparr>auctionDuration := max_uint256\<rparr>"

definition cx_long_posted :: World where
  "cx_long_posted =
     ex_posted\<lparr>jobs := [cx_long_job],
       events := [JobPosted 0 1 ''Test'' 100 200 max_uint256 300]\<rparr>"

text \<open>The example after the poster approves the submitted work with rating 0.\<close>

definition cx_zero_rated :: World where
  "cx_zero_rated =
     ex_submitted\<lparr>jobs := [ex_claimed_job\<lparr>status := Completed, submissionURI := ''ipfs://x'',
                                         rating := 0\<rparr>],
       agentStats := no_stats
          (2 := \<lparr>completedJobs = 1, disputedJobs = 0, totalEarned = 150, totalRating = 0\<rparr>),
       events := [JobPosted 0 1 ''Test'' 100 200 60 300, JobClaimed 0 2 21548 150,
                  WorkSubmitted 0 ''ipfs://x'', WorkApproved 0 0 150],
       clawd := \<lparr>balanceOf = (\<lambda>_. 0)(1 := 9850, 2 := 1150, 3 := 1000, 99 := 0),
                 allowance = (\<lambda>_. (\<lambda>_. 0))(1 := (\<lambda>_. 0)(99 := 0)),
                 transfers = [(1, 99, 200), (99, 1, 50), (99, 2, 150)]\<rparr>\<rparr>"




text \<open>
  A token with a supply of \<open>2^255\<close>, all of it held by the poster 1, and three rounds
  of post, claim, submit and approve in which the same tokens fund a job of price
  \<open>2^255\<close> each time: first 1 pays agent 2, then 2 pays agent 3, then 3 posts a job that
  agent 2 claims and submits. \<open>cx_rich_agent\<close> is the state after these eleven calls.
\<close>

definition two255 :: uint256 where
  "two255 = 57896044618658097711785492504343953926634992332820282019728792003956564819968"

definition cx_rich_token :: Token where
  "cx_rich_token =
     \<lparr>balanceOf = (\<lambda>_. 0)(1 := 57896044618658097711785492504343953926634992332820282019728792003956564819968),
      allowance = (\<lambda>_. (\<lambda>_. 0))
        (1 := (\<lambda>_. 0)(99 := 57896044618658097711785492504343953926634992332820282019728792003956564819968),
         2 := (\<lambda>_. 0)(99 := 57896044618658097711785492504343953926634992332820282019728792003956564819968),
         3 := (\<lambda>_. 0)(99 := 57896044618658097711785492504343953926634992332820282019728792003956564819968)),
      transfers = []\<rparr>"

definition cx_rich_trace :: "(Env \<times> Call) list" where
  "cx_rich_trace =
     [(env_at 1 1000, PostJob ''a'' two255 two255 60 300),
      (env_at 2 1001, ClaimJob 0 7),
      (env_at 2 1002, SubmitWork 0 ''u''),
      (env_at 1 1003, ApproveWork 0 90),
      (env_at 2 1004, PostJob ''b'' two255 two255 60 300),
      (env_at 3 1005, ClaimJob 1 8),
      (env_at 3 1006, SubmitWork 1 ''u''),
      (env_at 2 1007, ApproveWork 1 90),
      (env_at 3 1008, PostJob ''c'' two255 two255 60 300),
      (env_at 2 1009, ClaimJob 2 7),
      (env_at 2 1010, SubmitWork 2 ''u'')]"

definition cx_rich_job ::
    "address \<Rightarrow> string \<Rightarrow> uint256 \<Rightarrow> address \<Rightarrow> uint256 \<Rightarrow> uint256 \<Rightarrow> Job" where
  "cx_rich_job p d start a aid claimed =
     \<lparr>poster = p, description = d, minPrice = two255, maxPrice = two255,
      auctionStart = start, auctionDuration = 60, workDeadline = 300, claimedAt = claimed,
      agent = a, agentId = aid, submissionURI = ''u'', paidAmount = two255, rating = 0,
      status = Submitted\<rparr>"

definition cx_rich_agent :: World where
  "cx_rich_agent =
     \<lparr>jobs = [(cx_rich_job 1 ''a'' 1000 2 7 1001)\<lparr>rating := 90, status := Completed\<rparr>,
              (cx_rich_job 2 ''b'' 1004 3 8 1005)\<lparr>rating := 90, status := Completed\<rparr>,
              cx_rich_job 3 ''c'' 1008 2 7 1009],
      agentStats = no_stats
        (2 := \<lparr>completedJobs = 1, disputedJobs = 0, totalEarned = two255, totalRating = 90\<rparr>,
         3 := \<lparr>completedJobs = 1, disputedJobs = 0, totalEarned = two255, totalRating = 90\<rparr>),
      events = [JobPosted 0 1 ''a'' two255 two255 60 300, JobClaimed 0 2 7 two255,
                WorkSubmitted 0 ''u'', WorkApproved 0 90 two255,
                JobPosted 1 2 ''b'' two255 two255 60 300, JobClaimed 1 3 8 two255,
                WorkSubmitted 1 ''u'', WorkApproved 1 90 two255,
                JobPosted 2 3 ''c'' two255 two255 60 300, JobClaimed 2 2 7 two255,
                WorkSubmitted 2 ''u''],
      clawd = \<lparr>balanceOf = (\<lambda>_. 0)(99 := 57896044618658097711785492504343953926634992332820282019728792003956564819968),
               allowance = (\<lambda>_. (\<lambda>_. 0)),
               transfers = [(1, 99, two255), (99, 2, two255), (2, 99, two255), (99, 3, two255),
                            (3, 99, two255)]\<rparr>,
      this = 99\<rparr>"

text \<open>The first three calls of the example, and three agents claiming the posted job.\<close>

definition ex_trace :: "(Env \<times> Call) list" where
  "ex_trace =
     [(env_at 1 1000, PostJob ''Test'' 100 200 60 300),
      (env_at 2 1030, ClaimJob 0 21548),
      (env_at 2 1100, SubmitWork 0 ''ipfs://x'')]"

definition ex_race :: "(Env \<times> uint256) list" where
  "ex_race = [(env_at 2 1030, 21548), (env_at 3 1030, 777), (env_at 4 1031, 5)]"

text \<open>
  The posted example on a board that holds no tokens (the token as before the post), and
  the example job as a claim by agent 2 at time 1060, the end of its auction, leaves it.
\<close>

definition ex_unfunded :: World where
  "ex_unfunded = ex_posted\<lparr>clawd := ex_token\<rparr>"

definition ex_late_job :: Job where
  "ex_late_job =
     ex_job\<lparr>status := Claimed, agent := 2, agentId := 21548, claimedAt := 1060,
            paidAmount := 200\<rparr>"

text \<open>Races for the posted example that include its poster, and a one-call race.\<close>

definition cx_race_poster :: "(Env \<times> uint256) list" where
  "cx_race_poster = [(env_at 1 1030, 5), (env_at 2 1030, 21548), (env_at 3 1031, 777)]"

definition cx_race_posters :: "(Env \<times> uint256) list" where
  "cx_race_posters = [(env_at 1 1030, 5), (env_at 1 1031, 6)]"

section \<open>Lemmas\<close>

subsection \<open>Checked arithmetic\<close>

lemma and_then_Inr [simp]: "and_then (Inr x) f = f x"
  by (simp add: and_then_def)

lemma and_then_Inl [simp]: "and_then (Inl e) f = Inl e"
  by (simp add: and_then_def)

lemma unat_lt_2p256: "unat (x :: uint256) < 2 ^ 256"
  using unsigned_less [of x, where ?'a = nat] by simp

lemma checked_add_ok:
  "unat a + unat b < 2 ^ 256 \<Longrightarrow> checked_add a b = Inr (a + b) \<and> unat (a + b) = unat a + unat b"
  using unat_add_lem [of a b] by (simp add: checked_add_def)

lemma checked_add_overflow:
  "\<not> unat a + unat b < 2 ^ 256 \<Longrightarrow> checked_add a b = Inl (Panic 17)"
  by (simp add: checked_add_def)

lemma checked_sub_ok:
  "b \<le> a \<Longrightarrow> checked_sub a b = Inr (a - b) \<and> unat (a - b) = unat a - unat b"
  by (simp add: checked_sub_def unat_sub)

lemma checked_mul_ok:
  "unat a * unat b < 2 ^ 256 \<Longrightarrow> checked_mul a b = Inr (a * b) \<and> unat (a * b) = unat a * unat b"
  using unat_mult_lem [of a b] by (simp add: checked_mul_def)

lemma checked_div_ok:
  "b \<noteq> 0 \<Longrightarrow> checked_div a b = Inr (a div b) \<and> unat (a div b) = unat a div unat b"
  by (simp add: checked_div_def unat_div)

lemma price_late:
  assumes "unat (auctionStart job) + unat (auctionDuration job) < 2 ^ 256"
    and "unat (auctionStart job) + unat (auctionDuration job) \<le> unat now"
  shows "getCurrentPrice_internal now job = Inr (maxPrice job)"
  using assms checked_add_ok [of "auctionStart job" "auctionDuration job"]
  by (simp add: getCurrentPrice_internal_def word_le_nat_alt)

lemma ramp_le:
  fixes r e d :: nat
  assumes "e < d"
  shows "r * e div d \<le> r"
proof -
  have "r * e \<le> r * d" using assms by simp
  then have "r * e div d \<le> r * d div d" by (rule div_le_mono)
  then show ?thesis using assms by simp
qed

lemma price_ramp:
  assumes no: "unat (auctionStart job) + unat (auctionDuration job) < 2 ^ 256"
    and ge: "unat (auctionStart job) \<le> unat now"
    and lt: "unat now < unat (auctionStart job) + unat (auctionDuration job)"
    and mm: "minPrice job \<le> maxPrice job"
    and mul: "(unat (maxPrice job) - unat (minPrice job)) * (unat now - unat (auctionStart job)) < 2 ^ 256"
  shows "\<exists>p. getCurrentPrice_internal now job = Inr p \<and>
     unat p = unat (minPrice job) +
       (unat (maxPrice job) - unat (minPrice job)) * (unat now - unat (auctionStart job))
         div unat (auctionDuration job)"
proof -
  let ?s = "auctionStart job" and ?d = "auctionDuration job"
  let ?lo = "minPrice job" and ?hi = "maxPrice job"
  have e: "checked_add ?s ?d = Inr (?s + ?d)" "unat (?s + ?d) = unat ?s + unat ?d"
    using checked_add_ok [OF no] by simp_all
  have nlt: "\<not> ?s + ?d \<le> now"
    using lt e(2) by (simp add: word_le_nat_alt)
  have el: "checked_sub now ?s = Inr (now - ?s)" "unat (now - ?s) = unat now - unat ?s"
    using checked_sub_ok [of ?s now] ge by (simp_all add: word_le_nat_alt)
  have rg: "checked_sub ?hi ?lo = Inr (?hi - ?lo)" "unat (?hi - ?lo) = unat ?hi - unat ?lo"
    using checked_sub_ok [OF mm] by simp_all
  have ml: "checked_mul (?hi - ?lo) (now - ?s) = Inr ((?hi - ?lo) * (now - ?s))"
    "unat ((?hi - ?lo) * (now - ?s)) = (unat ?hi - unat ?lo) * (unat now - unat ?s)"
    using checked_mul_ok [of "?hi - ?lo" "now - ?s"] mul rg(2) el(2) by simp_all
  have dpos: "0 < unat ?d" using ge lt by simp
  then have dnz: "?d \<noteq> 0" by (auto simp: unat_eq_0)
  let ?q = "(?hi - ?lo) * (now - ?s) div ?d"
  have dv: "checked_div ((?hi - ?lo) * (now - ?s)) ?d = Inr ?q"
    "unat ?q = (unat ?hi - unat ?lo) * (unat now - unat ?s) div unat ?d"
    using checked_div_ok [OF dnz, of "(?hi - ?lo) * (now - ?s)"] ml(2) by simp_all
  have "unat now - unat ?s < unat ?d" using ge lt by simp
  then have qle: "unat ?q \<le> unat ?hi - unat ?lo"
    unfolding dv(2) by (rule ramp_le)
  have "unat ?lo \<le> unat ?hi" using mm by (simp add: word_le_nat_alt)
  with qle have "unat ?lo + unat ?q \<le> unat ?hi" by simp
  then have "unat ?lo + unat ?q < 2 ^ 256"
    using unat_lt_2p256 [of ?hi] by simp
  then have fin: "checked_add ?lo ?q = Inr (?lo + ?q)" "unat (?lo + ?q) = unat ?lo + unat ?q"
    using checked_add_ok [of ?lo ?q] by simp_all
  have "getCurrentPrice_internal now job = Inr (?lo + ?q)"
    by (simp add: getCurrentPrice_internal_def e(1) nlt el(1) rg(1) ml(1) dv(1) fin(1))
  then show ?thesis using fin(2) dv(2) by simp
qed

text \<open>The price the code computes, whenever its arithmetic goes through.\<close>

lemma price_nat:
  assumes mm: "minPrice job \<le> maxPrice job" and pd: "price_defined job now"
  shows "\<exists>p. getCurrentPrice_internal now job = Inr p \<and>
     unat p = (if unat now < unat (auctionStart job) + unat (auctionDuration job)
               then unat (minPrice job) +
                 (unat (maxPrice job) - unat (minPrice job)) * (unat now - unat (auctionStart job))
                   div unat (auctionDuration job)
               else unat (maxPrice job))"
proof (cases "unat now < unat (auctionStart job) + unat (auctionDuration job)")
  case True
  then show ?thesis
    using price_ramp [of job now] mm pd by (simp add: price_defined_def)
next
  case False
  then show ?thesis
    using price_late [of job now] pd by (simp add: price_defined_def)
qed

lemma trunc_div_nonneg: "0 \<le> a \<Longrightarrow> 0 < b \<Longrightarrow> trunc_div a b = a div b"
  by (simp add: trunc_div_def)

lemma spec_arith:
  fixes lo hi s d n :: nat
  assumes le: "lo \<le> hi" and dpos: "0 < d" and ge: "s \<le> n"
  shows "int lo + trunc_div ((int hi - int lo) * clamp (int n - int s) 0 (int d)) (int d) =
     int (if n < s + d then lo + (hi - lo) * (n - s) div d else hi)"
proof -
  have el: "clamp (int n - int s) 0 (int d) = int (min (n - s) d)"
    unfolding clamp_def using ge by linarith
  have r: "int hi - int lo = int (hi - lo)"
    using le by (simp add: of_nat_diff)
  have "int lo + trunc_div ((int hi - int lo) * clamp (int n - int s) 0 (int d)) (int d)
      = int lo + trunc_div (int ((hi - lo) * min (n - s) d)) (int d)"
    unfolding el r by simp
  also have "\<dots> = int lo + int ((hi - lo) * min (n - s) d) div int d"
    using dpos by (subst trunc_div_nonneg) simp_all
  also have "\<dots> = int (lo + (hi - lo) * min (n - s) d div d)"
    by (simp add: zdiv_int)
  finally have eq: "int lo + trunc_div ((int hi - int lo) * clamp (int n - int s) 0 (int d)) (int d)
     = int (lo + (hi - lo) * min (n - s) d div d)" .
  show ?thesis
  proof (cases "n < s + d")
    case True
    then have "min (n - s) d = n - s" using ge by simp
    with eq True show ?thesis by simp
  next
    case False
    then have "min (n - s) d = d" using ge by simp
    with eq False dpos le show ?thesis by simp
  qed
qed

lemma spec_price_nat:
  assumes mm: "minPrice job \<le> maxPrice job" and d: "0 < auctionDuration job"
    and ge: "unat (auctionStart job) \<le> unat now"
  shows "spec_currentPrice job now =
     int (if unat now < unat (auctionStart job) + unat (auctionDuration job)
               then unat (minPrice job) +
                 (unat (maxPrice job) - unat (minPrice job)) * (unat now - unat (auctionStart job))
                   div unat (auctionDuration job)
               else unat (maxPrice job))"
proof -
  have dpos: "0 < unat (auctionDuration job)" using d by (simp add: word_less_nat_alt)
  have le: "unat (minPrice job) \<le> unat (maxPrice job)" using mm by (simp add: word_le_nat_alt)
  show ?thesis
    unfolding spec_currentPrice_def spec_elapsed_def uint_nat
    by (rule spec_arith [OF le dpos ge])
qed

subsection \<open>The shape of the price curve\<close>

lemma unat_word_eqI: "unat (a::uint256) = unat b \<Longrightarrow> a = b"
  by (simp add: word_unat_eq_iff)

lemma price_fun_mono:
  fixes lo hi s d t1 t2 :: nat
  assumes "lo \<le> hi" "s \<le> t1" "t1 \<le> t2"
  shows "(if t1 < s + d then lo + (hi - lo) * (t1 - s) div d else hi)
       \<le> (if t2 < s + d then lo + (hi - lo) * (t2 - s) div d else hi)"
proof (cases "t2 < s + d")
  case True
  then have t1: "t1 < s + d" using assms by simp
  have "(hi - lo) * (t1 - s) \<le> (hi - lo) * (t2 - s)"
    using assms by (intro mult_le_mono2) simp
  then have "(hi - lo) * (t1 - s) div d \<le> (hi - lo) * (t2 - s) div d"
    by (rule div_le_mono)
  with True t1 show ?thesis by simp
next
  case False
  show ?thesis
  proof (cases "t1 < s + d")
    case True
    then have "t1 - s < d" using assms by simp
    then have "(hi - lo) * (t1 - s) div d \<le> hi - lo" by (rule ramp_le)
    with True False assms show ?thesis by simp
  next
    case F: False
    with False show ?thesis by simp
  qed
qed

lemma price_fun_bounds:
  fixes lo hi s d t :: nat
  assumes "lo \<le> hi" "s \<le> t"
  shows "lo \<le> (if t < s + d then lo + (hi - lo) * (t - s) div d else hi)"
    and "(if t < s + d then lo + (hi - lo) * (t - s) div d else hi) \<le> hi"
proof -
  show "lo \<le> (if t < s + d then lo + (hi - lo) * (t - s) div d else hi)"
    using assms by simp
  show "(if t < s + d then lo + (hi - lo) * (t - s) div d else hi) \<le> hi"
  proof (cases "t < s + d")
    case True
    then have "t - s < d" using assms by simp
    then have "(hi - lo) * (t - s) div d \<le> hi - lo" by (rule ramp_le)
    with True assms show ?thesis by simp
  next
    case False
    then show ?thesis by simp
  qed
qed

lemmas cx_defs = cx_long_posted_def cx_long_job_def max_uint256_def ex_posted_def ex_job_def
  env_at_def no_stats_def

subsection \<open>When the price is defined\<close>

lemma checked_sub_Inr: "checked_sub a b = Inr c \<Longrightarrow> b \<le> a \<and> c = a - b"
  by (simp add: checked_sub_def split: if_splits)

lemma checked_add_Inr:
  "checked_add a b = Inr c \<Longrightarrow> unat a + unat b < 2 ^ 256 \<and> c = a + b \<and> unat c = unat a + unat b"
  using checked_add_ok [of a b] by (cases "unat a + unat b < 2 ^ 256") (simp_all add: checked_add_overflow)

lemma checked_mul_Inr:
  "checked_mul a b = Inr c \<Longrightarrow> unat a * unat b < 2 ^ 256 \<and> c = a * b"
  by (simp add: checked_mul_def split: if_splits)

lemma and_then_eq_Inr: "and_then r f = Inr y \<Longrightarrow> \<exists>x. r = Inr x \<and> f x = Inr y"
  by (cases r) simp_all

lemma price_Inr_cases:
  assumes "getCurrentPrice_internal now job = Inr p"
  shows "(unat (auctionStart job) + unat (auctionDuration job) \<le> unat now \<and> p = maxPrice job) \<or>
         (minPrice job \<le> maxPrice job \<and> price_defined job now)"
proof -
  let ?s = "auctionStart job" and ?d = "auctionDuration job"
  from assms obtain e where e: "checked_add ?s ?d = Inr e"
    and r1: "(if e \<le> now then Inr (maxPrice job)
       else
         and_then (checked_sub now ?s) (\<lambda>elapsed.
         and_then (checked_sub (maxPrice job) (minPrice job)) (\<lambda>range.
         and_then (checked_mul range elapsed) (\<lambda>scaled.
         and_then (checked_div scaled ?d) (\<lambda>quotient.
         checked_add (minPrice job) quotient))))) = Inr p"
    unfolding getCurrentPrice_internal_def by (blast dest: and_then_eq_Inr)
  from checked_add_Inr [OF e] have no: "unat ?s + unat ?d < 2 ^ 256"
    and ue: "unat e = unat ?s + unat ?d" by blast+
  show ?thesis
  proof (cases "e \<le> now")
    case True
    with r1 ue show ?thesis by (simp add: word_le_nat_alt)
  next
    case False
    with r1 obtain el where el: "checked_sub now ?s = Inr el"
      and r2: "and_then (checked_sub (maxPrice job) (minPrice job)) (\<lambda>range.
         and_then (checked_mul range el) (\<lambda>scaled.
         and_then (checked_div scaled ?d) (\<lambda>quotient.
         checked_add (minPrice job) quotient))) = Inr p"
      by (auto dest: and_then_eq_Inr)
    from r2 obtain rg where rg: "checked_sub (maxPrice job) (minPrice job) = Inr rg"
      and r3: "and_then (checked_mul rg el) (\<lambda>scaled.
         and_then (checked_div scaled ?d) (\<lambda>quotient.
         checked_add (minPrice job) quotient)) = Inr p"
      by (blast dest: and_then_eq_Inr)
    from r3 obtain sc where sc: "checked_mul rg el = Inr sc"
      by (blast dest: and_then_eq_Inr)
    from checked_sub_Inr [OF el] have ge: "?s \<le> now" and eld: "el = now - ?s" by simp_all
    from checked_sub_Inr [OF rg] have mm: "minPrice job \<le> maxPrice job"
      and rgd: "rg = maxPrice job - minPrice job" by simp_all
    from checked_mul_Inr [OF sc] have "unat rg * unat el < 2 ^ 256" by simp
    then have "(unat (maxPrice job) - unat (minPrice job)) * (unat now - unat ?s) < 2 ^ 256"
      using ge mm by (simp add: eld rgd unat_sub)
    then have "price_defined job now"
      using ge no by (simp add: price_defined_def word_le_nat_alt)
    with mm show ?thesis by simp
  qed
qed

lemma price_Inr_bounds:
  assumes "getCurrentPrice_internal now job = Inr p"
  shows "p \<le> maxPrice job"
proof -
  from price_Inr_cases [OF assms] show ?thesis
  proof
    assume "unat (auctionStart job) + unat (auctionDuration job) \<le> unat now \<and> p = maxPrice job"
    then show ?thesis by simp
  next
    assume h: "minPrice job \<le> maxPrice job \<and> price_defined job now"
    then have mm: "minPrice job \<le> maxPrice job" and pd: "price_defined job now" by simp_all
    from price_nat [OF mm pd] assms
    have up: "unat p = (if unat now < unat (auctionStart job) + unat (auctionDuration job)
               then unat (minPrice job) +
                 (unat (maxPrice job) - unat (minPrice job)) * (unat now - unat (auctionStart job))
                   div unat (auctionDuration job)
               else unat (maxPrice job))" by auto
    have lohi: "unat (minPrice job) \<le> unat (maxPrice job)" using mm by (simp add: word_le_nat_alt)
    have ge: "unat (auctionStart job) \<le> unat now" using pd by (simp add: price_defined_def)
    show ?thesis
      unfolding word_le_nat_alt up by (rule price_fun_bounds(2) [OF lohi ge])
  qed
qed

subsection \<open>Token transfers and the claim\<close>

lemmas ex_defs = ex_posted_def ex_claimed_def ex_submitted_def ex_completed_def ex_job_def
  ex_claimed_job_def ex_token_def env_at_def no_stats_def

lemma refund_pos: "p \<le> m \<Longrightarrow> (0 < m - p) = (p < (m::uint256))"
  by (auto simp: word_gt_0)

lemma safeTransfer_Inr:
  "safeTransfer self dst val tok = Inr tok' \<longleftrightarrow>
     unat val \<le> balanceOf tok self \<and>
     tok' = tok\<lparr>balanceOf := ((balanceOf tok)(self := balanceOf tok self - unat val))
                    (dst := ((balanceOf tok)(self := balanceOf tok self - unat val)) dst + unat val),
                 transfers := transfers tok @ [(self, dst, val)]\<rparr>"
  by (auto simp: safeTransfer_def erc20_update_def Let_def)

lemma safeTransfer_Inl:
  "safeTransfer self dst val tok = Inl e \<longleftrightarrow> balanceOf tok self < unat val \<and> e = ERC20InsufficientBalance"
  by (auto simp: safeTransfer_def erc20_update_def Let_def)

text \<open>The job record that a claim at price \<open>p\<close> writes.\<close>

lemma claimJob_unfold:
  assumes j: "unat jobId < length (jobs w)"
    and st: "status (jobs w ! unat jobId) = Open"
    and np: "msg_sender env \<noteq> poster (jobs w ! unat jobId)"
    and pr: "getCurrentPrice_internal (block_timestamp env) (jobs w ! unat jobId) = Inr p"
  shows "claimJob env jobId aid w =
     and_then (if p < maxPrice (jobs w ! unat jobId)
               then safeTransfer (this w) (poster (jobs w ! unat jobId))
                      (maxPrice (jobs w ! unat jobId) - p) (clawd w)
               else Inr (clawd w))
       (\<lambda>tok. Inr (w\<lparr>jobs := (jobs w)[unat jobId := (jobs w ! unat jobId)
                        \<lparr>status := Claimed, agent := msg_sender env, agentId := aid,
                         claimedAt := block_timestamp env, paidAmount := p\<rparr>],
                      clawd := tok,
                      events := events w @ [JobClaimed jobId (msg_sender env) aid p]\<rparr>))"
proof -
  have le: "p \<le> maxPrice (jobs w ! unat jobId)" by (rule price_Inr_bounds [OF pr])
  then have sub: "checked_sub (maxPrice (jobs w ! unat jobId)) p = Inr (maxPrice (jobs w ! unat jobId) - p)"
    by (simp add: checked_sub_def)
  show ?thesis
    using j st np by (simp add: claimJob_def pr sub Let_def refund_pos [OF le])
qed

lemma claimJob_InrD:
  assumes "claimJob env jobId aid w = Inr w'"
  shows "unat jobId < length (jobs w) \<and> status (jobs w ! unat jobId) = Open \<and>
         msg_sender env \<noteq> poster (jobs w ! unat jobId) \<and>
         (\<exists>p. getCurrentPrice_internal (block_timestamp env) (jobs w ! unat jobId) = Inr p)"
  using assms
  by (auto simp: claimJob_def Let_def split: if_splits dest: and_then_eq_Inr)

lemma claimJob_post:
  assumes ok: "claimJob env jobId aid w = Inr w'"
  shows "unat jobId < length (jobs w) \<and> status (jobs w ! unat jobId) = Open \<and>
     msg_sender env \<noteq> poster (jobs w ! unat jobId) \<and>
     (\<exists>price. getCurrentPrice env jobId w = Inr price \<and>
        price \<le> maxPrice (jobs w ! unat jobId) \<and>
        jobs w' = (jobs w)[unat jobId := (jobs w ! unat jobId)
                     \<lparr>status := Claimed, agent := msg_sender env, agentId := aid,
                      claimedAt := block_timestamp env, paidAmount := price\<rparr>] \<and>
        (price < maxPrice (jobs w ! unat jobId) \<longrightarrow>
           unat (maxPrice (jobs w ! unat jobId)) - unat price \<le> balanceOf (clawd w) (this w) \<and>
           transfers (clawd w') = transfers (clawd w) @
             [(this w, poster (jobs w ! unat jobId), maxPrice (jobs w ! unat jobId) - price)] \<and>
           unat (maxPrice (jobs w ! unat jobId) - price) =
             unat (maxPrice (jobs w ! unat jobId)) - unat price \<and>
           (poster (jobs w ! unat jobId) \<noteq> this w \<longrightarrow>
              balanceOf (clawd w') (this w) =
                balanceOf (clawd w) (this w) - (unat (maxPrice (jobs w ! unat jobId)) - unat price) \<and>
              balanceOf (clawd w') (poster (jobs w ! unat jobId)) =
                balanceOf (clawd w) (poster (jobs w ! unat jobId)) +
                  (unat (maxPrice (jobs w ! unat jobId)) - unat price))) \<and>
        (price = maxPrice (jobs w ! unat jobId) \<longrightarrow> clawd w' = clawd w) \<and>
        allowance (clawd w') = allowance (clawd w) \<and>
        agentStats w' = agentStats w \<and> this w' = this w \<and>
        events w' = events w @ [JobClaimed jobId (msg_sender env) aid price])"
proof -
  let ?job = "jobs w ! unat jobId"
  from claimJob_InrD [OF ok] obtain p where j: "unat jobId < length (jobs w)"
    and st: "status ?job = Open" and np: "msg_sender env \<noteq> poster ?job"
    and pr: "getCurrentPrice_internal (block_timestamp env) ?job = Inr p" by blast
  have le: "p \<le> maxPrice ?job" by (rule price_Inr_bounds [OF pr])
  have un: "unat (maxPrice ?job - p) = unat (maxPrice ?job) - unat p" using le by (rule unat_sub)
  have gp: "getCurrentPrice env jobId w = Inr p" using j pr by (simp add: getCurrentPrice_def)
  note u = claimJob_unfold [OF j st np pr, of aid]
  show ?thesis
  proof (cases "p < maxPrice ?job")
    case True
    from u ok True have a: "and_then (safeTransfer (this w) (poster ?job) (maxPrice ?job - p) (clawd w))
       (\<lambda>tok. Inr (w\<lparr>jobs := (jobs w)[unat jobId := ?job
                        \<lparr>status := Claimed, agent := msg_sender env, agentId := aid,
                         claimedAt := block_timestamp env, paidAmount := p\<rparr>],
                      clawd := tok,
                      events := events w @ [JobClaimed jobId (msg_sender env) aid p]\<rparr>)) = Inr w'"
      by simp
    from and_then_eq_Inr [OF a] obtain tok where t: "safeTransfer (this w) (poster ?job) (maxPrice ?job - p) (clawd w) = Inr tok"
      and w': "w' = w\<lparr>jobs := (jobs w)[unat jobId := ?job
                        \<lparr>status := Claimed, agent := msg_sender env, agentId := aid,
                         claimedAt := block_timestamp env, paidAmount := p\<rparr>],
                      clawd := tok,
                      events := events w @ [JobClaimed jobId (msg_sender env) aid p]\<rparr>"
      by auto
    from t have bal: "unat (maxPrice ?job - p) \<le> balanceOf (clawd w) (this w)"
      and tok: "tok = (clawd w)\<lparr>balanceOf := ((balanceOf (clawd w))(this w := balanceOf (clawd w) (this w) - unat (maxPrice ?job - p)))
                    (poster ?job := ((balanceOf (clawd w))(this w := balanceOf (clawd w) (this w) - unat (maxPrice ?job - p))) (poster ?job) + unat (maxPrice ?job - p)),
                 transfers := transfers (clawd w) @ [(this w, poster ?job, maxPrice ?job - p)]\<rparr>"
      by (simp_all add: safeTransfer_Inr)
    have "p \<noteq> maxPrice ?job" using True by simp
    then show ?thesis
      using j st np gp le True bal un by (simp add: w' tok)
  next
    case False
    then have eq: "p = maxPrice ?job" using le by simp
    from u ok False have w': "w' = w\<lparr>jobs := (jobs w)[unat jobId := ?job
                        \<lparr>status := Claimed, agent := msg_sender env, agentId := aid,
                         claimedAt := block_timestamp env, paidAmount := p\<rparr>],
                      clawd := clawd w,
                      events := events w @ [JobClaimed jobId (msg_sender env) aid p]\<rparr>"
      by simp
    show ?thesis
      using j st np gp le eq by (simp add: w')
  qed
qed

lemma cancelJob_unfold:
  assumes j: "unat jobId < length (jobs w)"
    and st: "status (jobs w ! unat jobId) = Open"
    and sp: "msg_sender env = poster (jobs w ! unat jobId)"
  shows "cancelJob env jobId w =
     and_then (safeTransfer (this w) (poster (jobs w ! unat jobId))
                 (maxPrice (jobs w ! unat jobId)) (clawd w))
       (\<lambda>tok. Inr (w\<lparr>jobs := (jobs w)[unat jobId := (jobs w ! unat jobId)\<lparr>status := Cancelled\<rparr>],
                      clawd := tok, events := events w @ [JobCancelled jobId]\<rparr>))"
  using assms by (simp add: cancelJob_def Let_def)

lemma safeTransfer_ok:
  "unat val \<le> balanceOf tok self \<Longrightarrow> \<exists>tok'. safeTransfer self dst val tok = Inr tok'"
  by (simp add: safeTransfer_Inr)



lemma ucast_rating: "unat (ucast (r::uint8) :: uint256) = unat r"
proof -
  have "unat r < 2 ^ 8" using unsigned_less [of r, where ?'a = nat] by simp
  also have "(2::nat) ^ 8 \<le> 2 ^ 256" by simp
  finally have "unat r < 2 ^ 256" .
  then show ?thesis by (simp add: unsigned_ucast_eq take_bit_nat_eq_self)
qed

subsection \<open>What a successful call has done\<close>

lemma postJob_InrD:
  assumes "postJob env descr minP maxP duration deadline w = Inr (i, w')"
  shows "jobs w' = jobs w @
           [\<lparr>poster = msg_sender env, description = descr, minPrice = minP, maxPrice = maxP,
             auctionStart = block_timestamp env, auctionDuration = duration,
             workDeadline = deadline, claimedAt = 0, agent = 0, agentId = 0,
             submissionURI = [], paidAmount = 0, rating = 0, status = Open\<rparr>] \<and>
         safeTransferFrom (this w) (msg_sender env) (this w) maxP (clawd w) = Inr (clawd w') \<and>
         this w' = this w \<and> agentStats w' = agentStats w \<and>
         0 < maxP \<and> minP \<le> maxP \<and> 0 < duration \<and> 0 < deadline \<and> descr \<noteq> []"
  using assms
  by (auto simp: postJob_def Let_def and_then_def split: if_splits sum.splits)

lemma approveWork_InrD:
  assumes "approveWork env i r w = Inr w'"
  shows "unat i < length (jobs w) \<and> status (jobs w ! unat i) = Submitted \<and>
         msg_sender env = poster (jobs w ! unat i) \<and> r \<le> 100 \<and>
         jobs w' = (jobs w)[unat i := (jobs w ! unat i)\<lparr>status := Completed, rating := r\<rparr>] \<and>
         safeTransfer (this w) (agent (jobs w ! unat i)) (paidAmount (jobs w ! unat i)) (clawd w)
           = Inr (clawd w') \<and>
         this w' = this w"
  using assms
  by (auto simp: approveWork_def Let_def and_then_def split: if_splits sum.splits)

lemma disputeWork_InrD:
  assumes "disputeWork env i w = Inr w'"
  shows "unat i < length (jobs w) \<and> status (jobs w ! unat i) = Submitted \<and>
         msg_sender env = poster (jobs w ! unat i) \<and>
         jobs w' = (jobs w)[unat i := (jobs w ! unat i)\<lparr>status := Disputed\<rparr>] \<and>
         safeTransfer (this w) (poster (jobs w ! unat i)) (paidAmount (jobs w ! unat i)) (clawd w)
           = Inr (clawd w') \<and>
         this w' = this w"
  using assms
  by (auto simp: disputeWork_def Let_def and_then_def split: if_splits sum.splits)

lemma cancelJob_InrD:
  assumes "cancelJob env i w = Inr w'"
  shows "unat i < length (jobs w) \<and> status (jobs w ! unat i) = Open \<and>
         msg_sender env = poster (jobs w ! unat i) \<and>
         jobs w' = (jobs w)[unat i := (jobs w ! unat i)\<lparr>status := Cancelled\<rparr>] \<and>
         safeTransfer (this w) (poster (jobs w ! unat i)) (maxPrice (jobs w ! unat i)) (clawd w)
           = Inr (clawd w') \<and>
         this w' = this w \<and> agentStats w' = agentStats w"
  using assms
  by (auto simp: cancelJob_def Let_def and_then_def split: if_splits sum.splits)

lemma submitWork_InrD:
  assumes "submitWork env i uri w = Inr w'"
  shows "unat i < length (jobs w) \<and> status (jobs w ! unat i) = Claimed \<and>
         msg_sender env = agent (jobs w ! unat i) \<and> uri \<noteq> [] \<and>
         jobs w' = (jobs w)[unat i := (jobs w ! unat i)\<lparr>status := Submitted, submissionURI := uri\<rparr>] \<and>
         clawd w' = clawd w \<and> this w' = this w \<and> agentStats w' = agentStats w"
  using assms
  by (auto simp: submitWork_def Let_def and_then_def split: if_splits sum.splits)

lemma expireJob_InrD:
  assumes "expireJob env i w = Inr w'"
  shows "unat i < length (jobs w) \<and> status (jobs w ! unat i) = Claimed \<and>
         jobs w' = (jobs w)[unat i := (jobs w ! unat i)\<lparr>status := Expired\<rparr>] \<and>
         safeTransfer (this w) (poster (jobs w ! unat i)) (paidAmount (jobs w ! unat i)) (clawd w)
           = Inr (clawd w') \<and>
         this w' = this w \<and> agentStats w' = agentStats w"
  using assms
  by (auto simp: expireJob_def Let_def and_then_def split: if_splits sum.splits)

lemma exec_unknown_job:
  assumes "target c = Some i" and "\<not> unat i < length (jobs w)"
  shows "exec env c w = Inl (Panic 50)"
  using assms
  by (cases c) (simp_all add: approveWork_def disputeWork_def cancelJob_def claimJob_def
      submitWork_def expireJob_def)

subsection \<open>Terminal jobs\<close>

lemma terminal_simps [simp]:
  "terminal Completed" "terminal Disputed" "terminal Expired" "terminal Cancelled"
  "\<not> terminal Open" "\<not> terminal Claimed" "\<not> terminal Submitted"
  by (simp_all add: terminal_def)

lemma terminal_errors:
  assumes j: "unat jobId < length (jobs w)" and tm: "terminal (status (jobs w ! unat jobId))"
  shows "claimJob env jobId aid w = Inl (Require ''Job not open'')"
    and "expireJob env jobId w = Inl (Require ''Job not in claimed state'')"
    and "approveWork env jobId r w =
           Inl (Require (if msg_sender env = poster (jobs w ! unat jobId)
                         then ''Job not submitted'' else ''Only poster can approve''))"
    and "disputeWork env jobId w =
           Inl (Require (if msg_sender env = poster (jobs w ! unat jobId)
                         then ''Job not submitted'' else ''Only poster can dispute''))"
    and "cancelJob env jobId w =
           Inl (Require (if msg_sender env = poster (jobs w ! unat jobId)
                         then ''Job not open'' else ''Only poster can cancel''))"
    and "submitWork env jobId uri w =
           Inl (Require (if msg_sender env = agent (jobs w ! unat jobId)
                         then ''Job not claimed'' else ''Only assigned agent''))"
  using j tm
  by (auto simp: claimJob_def expireJob_def approveWork_def disputeWork_def cancelJob_def
      submitWork_def Let_def)

lemma terminal_exec_fails:
  assumes j: "unat jobId < length (jobs w)" and tm: "terminal (status (jobs w ! unat jobId))"
    and tg: "target c = Some jobId"
  shows "\<exists>e. exec env c w = Inl e"
  using tg terminal_errors [OF j tm] by (cases c) simp_all

lemma exec_frame:
  assumes ok: "exec env c w = Inr w'" and k: "k < length (jobs w)"
    and other: "map_option unat (target c) \<noteq> Some k"
  shows "k < length (jobs w') \<and> jobs w' ! k = jobs w ! k"
proof (cases c)
  case (PostJob d lo hi du wd)
  with ok obtain i where "postJob env d lo hi du wd w = Inr (i, w')"
    by (cases "postJob env d lo hi du wd w") auto
  from postJob_InrD [OF this] k show ?thesis by (simp add: nth_append)
next
  case (ApproveWork i r)
  with ok other approveWork_InrD [of env i r w w'] k show ?thesis by auto
next
  case (DisputeWork i)
  with ok other disputeWork_InrD [of env i w w'] k show ?thesis by auto
next
  case (CancelJob i)
  with ok other cancelJob_InrD [of env i w w'] k show ?thesis by auto
next
  case (ClaimJob i a)
  with ok other claimJob_post [of env i a w w'] k show ?thesis by auto
next
  case (SubmitWork i u)
  with ok other submitWork_InrD [of env i u w w'] k show ?thesis by auto
next
  case (ExpireJob i)
  with ok other expireJob_InrD [of env i w w'] k show ?thesis by auto
qed

lemma terminal_transact:
  assumes k: "k < length (jobs w)" and tm: "terminal (status (jobs w ! k))"
  shows "k < length (jobs (transact env c w)) \<and> jobs (transact env c w) ! k = jobs w ! k"
proof (cases "exec env c w")
  case (Inl e)
  then show ?thesis using k by (simp add: transact_def)
next
  case (Inr w')
  have "map_option unat (target c) \<noteq> Some k"
  proof
    assume "map_option unat (target c) = Some k"
    then obtain i where i: "target c = Some i" and ik: "unat i = k" by auto
    from terminal_exec_fails [of i w c env] k tm i ik Inr show False by auto
  qed
  from exec_frame [OF Inr k this] Inr show ?thesis by (simp add: transact_def)
qed

lemma terminal_run:
  assumes "k < length (jobs w)" and "terminal (status (jobs w ! k))"
  shows "k < length (jobs (run cs w)) \<and> jobs (run cs w) ! k = jobs w ! k"
  using assms
proof (induction cs arbitrary: w)
  case Nil
  then show ?case by simp
next
  case (Cons ec cs)
  from terminal_transact [OF Cons.prems, of "fst ec" "snd ec"]
  have 1: "k < length (jobs (transact (fst ec) (snd ec) w))"
    and 2: "jobs (transact (fst ec) (snd ec) w) ! k = jobs w ! k" by simp_all
  from Cons.prems 2 have "terminal (status (jobs (transact (fst ec) (snd ec) w) ! k))" by simp
  from Cons.IH [OF 1 this] 2 show ?case by simp
qed

subsection \<open>Tokens sent by the board\<close>

lemma sent_by_board_same [simp]: "sent_by_board w w = 0"
  by (simp add: sent_by_board_def)

lemma sent_by_board_none: "clawd w' = clawd w \<Longrightarrow> sent_by_board w w' = 0"
  by (simp add: sent_by_board_def)

lemma sent_by_board_one:
  "transfers (clawd w') = transfers (clawd w) @ [(this w, dst, val)] \<Longrightarrow>
     sent_by_board w w' = unat val"
  by (simp add: sent_by_board_def)

lemma safeTransfer_transfers:
  "safeTransfer self dst val tok = Inr tok' \<Longrightarrow> transfers tok' = transfers tok @ [(self, dst, val)]"
  by (simp add: safeTransfer_Inr)

lemma safeTransfer_balance:
  "safeTransfer self dst val tok = Inr tok' \<Longrightarrow> dst \<noteq> self \<Longrightarrow>
     balanceOf tok' self + unat val = balanceOf tok self"
  by (simp add: safeTransfer_Inr)

lemma safeTransferFrom_balance:
  "safeTransferFrom self src self val tok = Inr tok' \<Longrightarrow> src \<noteq> self \<Longrightarrow>
     balanceOf tok' self = balanceOf tok self + unat val"
  by (auto simp: safeTransferFrom_def erc20_update_def Let_def split: if_splits)

lemma escrowed_simps [simp]:
  "status job = Open \<Longrightarrow> escrowed job = unat (maxPrice job)"
  "status job = Claimed \<Longrightarrow> escrowed job = unat (paidAmount job)"
  "status job = Submitted \<Longrightarrow> escrowed job = unat (paidAmount job)"
  "terminal (status job) \<Longrightarrow> escrowed job = 0"
  by (auto simp: escrowed_def terminal_def)

subsection \<open>One call conserves the value of each job\<close>

lemma exec_conserves_target:
  assumes ok: "exec env c w = Inr w'" and tg: "target c = Some i"
  shows "unat i < length (jobs w') \<and> unat i < length (jobs w) \<and>
         maxPrice (jobs w' ! unat i) = maxPrice (jobs w ! unat i) \<and>
         escrowed (jobs w' ! unat i) + sent_by_board w w' = escrowed (jobs w ! unat i)"
proof (cases c)
  case (PostJob d lo hi du wd)
  with tg show ?thesis by simp
next
  case (ApproveWork i' r)
  with tg ok have a: "approveWork env i r w = Inr w'" by simp
  note d = approveWork_InrD [OF a]
  from d have "sent_by_board w w' = unat (paidAmount (jobs w ! unat i))"
    by (intro sent_by_board_one) (auto dest: safeTransfer_transfers)
  with d show ?thesis by simp
next
  case (DisputeWork i')
  with tg ok have a: "disputeWork env i w = Inr w'" by simp
  note d = disputeWork_InrD [OF a]
  from d have "sent_by_board w w' = unat (paidAmount (jobs w ! unat i))"
    by (intro sent_by_board_one) (auto dest: safeTransfer_transfers)
  with d show ?thesis by simp
next
  case (CancelJob i')
  with tg ok have a: "cancelJob env i w = Inr w'" by simp
  note d = cancelJob_InrD [OF a]
  from d have "sent_by_board w w' = unat (maxPrice (jobs w ! unat i))"
    by (intro sent_by_board_one) (auto dest: safeTransfer_transfers)
  with d show ?thesis by simp
next
  case (ClaimJob i' aid)
  with tg ok have a: "claimJob env i aid w = Inr w'" by simp
  from claimJob_post [OF a] obtain p where j: "unat i < length (jobs w)"
    and st: "status (jobs w ! unat i) = Open"
    and le: "p \<le> maxPrice (jobs w ! unat i)"
    and js: "jobs w' = (jobs w)[unat i := (jobs w ! unat i)
                     \<lparr>status := Claimed, agent := msg_sender env, agentId := aid,
                      claimedAt := block_timestamp env, paidAmount := p\<rparr>]"
    and lt: "p < maxPrice (jobs w ! unat i) \<longrightarrow>
           transfers (clawd w') = transfers (clawd w) @
             [(this w, poster (jobs w ! unat i), maxPrice (jobs w ! unat i) - p)] \<and>
           unat (maxPrice (jobs w ! unat i) - p) = unat (maxPrice (jobs w ! unat i)) - unat p"
    and eq: "p = maxPrice (jobs w ! unat i) \<longrightarrow> clawd w' = clawd w"
    by blast
  have ule: "unat p \<le> unat (maxPrice (jobs w ! unat i))" using le by (simp add: word_le_nat_alt)
  have "sent_by_board w w' = unat (maxPrice (jobs w ! unat i)) - unat p"
  proof (cases "p < maxPrice (jobs w ! unat i)")
    case True
    with lt show ?thesis by (simp add: sent_by_board_one)
  next
    case False
    with le have "p = maxPrice (jobs w ! unat i)" by simp
    with eq show ?thesis by (simp add: sent_by_board_none)
  qed
  with j st js ule show ?thesis by simp
next
  case (SubmitWork i' uri)
  with tg ok have a: "submitWork env i uri w = Inr w'" by simp
  note d = submitWork_InrD [OF a]
  from d have "sent_by_board w w' = 0" by (simp add: sent_by_board_none)
  with d show ?thesis by simp
next
  case (ExpireJob i')
  with tg ok have a: "expireJob env i w = Inr w'" by simp
  note d = expireJob_InrD [OF a]
  from d have "sent_by_board w w' = unat (paidAmount (jobs w ! unat i))"
    by (intro sent_by_board_one) (auto dest: safeTransfer_transfers)
  with d show ?thesis by simp
qed

lemma transact_conserves:
  assumes k: "k < length (jobs w)"
  shows "k < length (jobs (transact env c w)) \<and>
         maxPrice (jobs (transact env c w) ! k) = maxPrice (jobs w ! k) \<and>
         escrowed (jobs (transact env c w) ! k) +
           (if map_option unat (target c) = Some k then sent_by_board w (transact env c w) else 0)
           = escrowed (jobs w ! k)"
proof (cases "exec env c w")
  case (Inl e)
  then show ?thesis using k by (simp add: transact_def)
next
  case (Inr w')
  then have t: "transact env c w = w'" by (simp add: transact_def)
  show ?thesis
  proof (cases "map_option unat (target c) = Some k")
    case True
    then obtain i where i: "target c = Some i" and ik: "unat i = k" by auto
    from exec_conserves_target [OF Inr i] ik True show ?thesis by (simp add: t)
  next
    case False
    from exec_frame [OF Inr k False] False show ?thesis unfolding t by auto
  qed
qed

lemma transact_new_job:
  assumes n: "\<not> k < length (jobs w)" and k: "k < length (jobs (transact env c w))"
  shows "escrowed (jobs (transact env c w) ! k) = unat (maxPrice (jobs (transact env c w) ! k)) \<and>
         target c = None"
proof (cases "exec env c w")
  case (Inl e)
  with n k show ?thesis by (simp add: transact_def)
next
  case (Inr w')
  then have t: "transact env c w = w'" by (simp add: transact_def)
  show ?thesis
  proof (cases c)
    case (PostJob d lo hi du wd)
    with Inr obtain i where "postJob env d lo hi du wd w = Inr (i, w')"
      by (cases "postJob env d lo hi du wd w") auto
    from postJob_InrD [OF this] have js: "jobs w' = jobs w @
           [\<lparr>poster = msg_sender env, description = d, minPrice = lo, maxPrice = hi,
             auctionStart = block_timestamp env, auctionDuration = du,
             workDeadline = wd, claimedAt = 0, agent = 0, agentId = 0,
             submissionURI = [], paidAmount = 0, rating = 0, status = Open\<rparr>]" by simp
    with n k t have kl: "k = length (jobs w)" by simp
    show ?thesis unfolding t using js kl PostJob by simp
  next
    case (ApproveWork i r)
    with Inr approveWork_InrD [of env i r w w'] n k t show ?thesis by auto
  next
    case (DisputeWork i)
    with Inr disputeWork_InrD [of env i w w'] n k t show ?thesis by auto
  next
    case (CancelJob i)
    with Inr cancelJob_InrD [of env i w w'] n k t show ?thesis by auto
  next
    case (ClaimJob i a)
    with Inr claimJob_post [of env i a w w'] n k t show ?thesis by auto
  next
    case (SubmitWork i u)
    with Inr submitWork_InrD [of env i u w w'] n k t show ?thesis by auto
  next
    case (ExpireJob i)
    with Inr expireJob_InrD [of env i w w'] n k t show ?thesis by auto
  qed
qed

lemma run_conserves_old:
  assumes "k < length (jobs w)"
  shows "k < length (jobs (run cs w)) \<and>
         maxPrice (jobs (run cs w) ! k) = maxPrice (jobs w ! k) \<and>
         escrowed (jobs (run cs w) ! k) + paid_out k cs w = escrowed (jobs w ! k)"
  using assms
proof (induction cs arbitrary: w)
  case Nil
  then show ?case by simp
next
  case (Cons ec cs)
  let ?w1 = "transact (fst ec) (snd ec) w"
  from transact_conserves [OF Cons.prems, of "fst ec" "snd ec"]
  have 1: "k < length (jobs ?w1)" and 2: "maxPrice (jobs ?w1 ! k) = maxPrice (jobs w ! k)"
    and 3: "escrowed (jobs ?w1 ! k) +
           (if map_option unat (target (snd ec)) = Some k then sent_by_board w ?w1 else 0)
           = escrowed (jobs w ! k)" by simp_all
  from Cons.IH [OF 1] 2 3 show ?case by simp
qed

lemma run_conserves_new:
  assumes "\<not> k < length (jobs w)" and "k < length (jobs (run cs w))"
  shows "escrowed (jobs (run cs w) ! k) + paid_out k cs w = unat (maxPrice (jobs (run cs w) ! k))"
  using assms
proof (induction cs arbitrary: w)
  case Nil
  then show ?case by simp
next
  case (Cons ec cs)
  let ?w1 = "transact (fst ec) (snd ec) w"
  show ?case
  proof (cases "k < length (jobs ?w1)")
    case True
    from transact_new_job [OF Cons.prems(1) True]
    have e: "escrowed (jobs ?w1 ! k) = unat (maxPrice (jobs ?w1 ! k))"
      and tn: "target (snd ec) = None" by simp_all
    from run_conserves_old [OF True, of cs] e tn show ?thesis by simp
  next
    case False
    have "(if map_option unat (target (snd ec)) = Some k then sent_by_board w ?w1 else 0) = 0"
    proof (cases "map_option unat (target (snd ec)) = Some k")
      case True
      then obtain i where i: "target (snd ec) = Some i" and ik: "unat i = k" by auto
      from exec_unknown_job [OF i, of w "fst ec"] ik Cons.prems(1)
      have "?w1 = w" by (simp add: transact_def)
      then show ?thesis by simp
    next
      case F: False
      then show ?thesis by auto
    qed
    with Cons.IH [OF False] Cons.prems(2) show ?thesis by simp
  qed
qed

subsection \<open>One call conserves the board's balance\<close>

lemma sum_list_map_update:
  fixes f :: "'a \<Rightarrow> nat"
  assumes "k < length xs"
  shows "sum_list (map f (xs[k := y])) + f (xs ! k) = sum_list (map f xs) + f y"
  using assms
proof (induction xs arbitrary: k)
  case Nil
  then show ?case by simp
next
  case (Cons x xs)
  show ?case
  proof (cases k)
    case 0
    then show ?thesis by simp
  next
    case (Suc n)
    with Cons.prems have "n < length xs" by simp
    from Cons.IH [OF this] Suc show ?thesis by simp
  qed
qed

lemma pay_from_job:
  assumes k: "k < length (jobs w)"
    and js: "jobs w' = (jobs w)[k := y]"
    and t: "safeTransfer (this w) dst val (clawd w) = Inr (clawd w')"
    and d: "dst \<noteq> this w"
    and e: "escrowed (jobs w ! k) = escrowed y + unat val"
  shows "balanceOf (clawd w') (this w) + sum_list (map escrowed (jobs w))
       = balanceOf (clawd w) (this w) + sum_list (map escrowed (jobs w'))"
  using safeTransfer_balance [OF t d] sum_list_map_update [OF k, of escrowed y] e js
  by simp

lemma keep_in_job:
  assumes k: "k < length (jobs w)"
    and js: "jobs w' = (jobs w)[k := y]"
    and t: "clawd w' = clawd w"
    and e: "escrowed (jobs w ! k) = escrowed y"
  shows "balanceOf (clawd w') (this w) + sum_list (map escrowed (jobs w))
       = balanceOf (clawd w) (this w) + sum_list (map escrowed (jobs w'))"
  using sum_list_map_update [OF k, of escrowed y] e js t
  by simp

lemma parties_external_update:
  assumes pe: "parties_external w" and k: "k < length (jobs w)"
    and th: "this w' = this w" and js: "jobs w' = (jobs w)[k := y]"
    and p: "poster y = poster (jobs w ! k)"
    and a: "status y = Claimed \<or> status y = Submitted \<longrightarrow> agent y \<noteq> this w"
  shows "parties_external w'"
proof -
  have old: "poster (jobs w ! k) \<noteq> this w" using pe k by (simp add: parties_external_def)
  have "\<forall>job \<in> set (jobs w'). poster job \<noteq> this w \<and>
        (status job = Claimed \<or> status job = Submitted \<longrightarrow> agent job \<noteq> this w)"
  proof
    fix job assume "job \<in> set (jobs w')"
    then have "job \<in> insert y (set (jobs w))"
      using set_update_subset_insert [of "jobs w" k y] js by auto
    then show "poster job \<noteq> this w \<and>
        (status job = Claimed \<or> status job = Submitted \<longrightarrow> agent job \<noteq> this w)"
      using pe p a old by (auto simp: parties_external_def)
  qed
  then show ?thesis by (simp add: parties_external_def th)
qed

lemma parties_external_nth:
  "parties_external w \<Longrightarrow> k < length (jobs w) \<Longrightarrow>
     poster (jobs w ! k) \<noteq> this w \<and>
     (status (jobs w ! k) = Claimed \<or> status (jobs w ! k) = Submitted \<longrightarrow>
        agent (jobs w ! k) \<noteq> this w)"
  by (simp add: parties_external_def)

lemma exec_balance:
  assumes ok: "exec env c w = Inr w'" and pe: "parties_external w"
    and ns: "msg_sender env \<noteq> this w"
  shows "parties_external w' \<and> this w' = this w \<and>
         balanceOf (clawd w') (this w) + sum_list (map escrowed (jobs w))
           = balanceOf (clawd w) (this w) + sum_list (map escrowed (jobs w'))"
proof (cases c)
  case (PostJob d lo hi du wd)
  with ok obtain i where "postJob env d lo hi du wd w = Inr (i, w')"
    by (cases "postJob env d lo hi du wd w") auto
  from postJob_InrD [OF this] have js: "jobs w' = jobs w @
           [\<lparr>poster = msg_sender env, description = d, minPrice = lo, maxPrice = hi,
             auctionStart = block_timestamp env, auctionDuration = du,
             workDeadline = wd, claimedAt = 0, agent = 0, agentId = 0,
             submissionURI = [], paidAmount = 0, rating = 0, status = Open\<rparr>]"
    and t: "safeTransferFrom (this w) (msg_sender env) (this w) hi (clawd w) = Inr (clawd w')"
    and th: "this w' = this w" by simp_all
  have 1: "parties_external w'"
    using pe ns by (auto simp: parties_external_def js th)
  from safeTransferFrom_balance [OF t ns] js th 1 show ?thesis by simp
next
  case (ApproveWork i r)
  with ok have a: "approveWork env i r w = Inr w'" by simp
  let ?job = "jobs w ! unat i"
  let ?y = "?job\<lparr>status := Completed, rating := r\<rparr>"
  from approveWork_InrD [OF a] have k: "unat i < length (jobs w)"
    and st: "status ?job = Submitted"
    and js: "jobs w' = (jobs w)[unat i := ?y]"
    and t: "safeTransfer (this w) (agent ?job) (paidAmount ?job) (clawd w) = Inr (clawd w')"
    and th: "this w' = this w" by simp_all
  note pn = parties_external_nth [OF pe k]
  have dn: "agent ?job \<noteq> this w" using pn st by simp
  have 1: "parties_external w'"
    by (rule parties_external_update [OF pe k th js]) simp_all
  have 2: "balanceOf (clawd w') (this w) + sum_list (map escrowed (jobs w))
       = balanceOf (clawd w) (this w) + sum_list (map escrowed (jobs w'))"
    by (rule pay_from_job [OF k js t dn]) (simp add: st)
  from 1 2 th show ?thesis by simp
next
  case (DisputeWork i)
  with ok have a: "disputeWork env i w = Inr w'" by simp
  let ?job = "jobs w ! unat i"
  let ?y = "?job\<lparr>status := Disputed\<rparr>"
  from disputeWork_InrD [OF a] have k: "unat i < length (jobs w)"
    and st: "status ?job = Submitted"
    and js: "jobs w' = (jobs w)[unat i := ?y]"
    and t: "safeTransfer (this w) (poster ?job) (paidAmount ?job) (clawd w) = Inr (clawd w')"
    and th: "this w' = this w" by simp_all
  note pn = parties_external_nth [OF pe k]
  have dn: "poster ?job \<noteq> this w" using pn st by simp
  have 1: "parties_external w'"
    by (rule parties_external_update [OF pe k th js]) simp_all
  have 2: "balanceOf (clawd w') (this w) + sum_list (map escrowed (jobs w))
       = balanceOf (clawd w) (this w) + sum_list (map escrowed (jobs w'))"
    by (rule pay_from_job [OF k js t dn]) (simp add: st)
  from 1 2 th show ?thesis by simp
next
  case (CancelJob i)
  with ok have a: "cancelJob env i w = Inr w'" by simp
  let ?job = "jobs w ! unat i"
  let ?y = "?job\<lparr>status := Cancelled\<rparr>"
  from cancelJob_InrD [OF a] have k: "unat i < length (jobs w)"
    and st: "status ?job = Open"
    and js: "jobs w' = (jobs w)[unat i := ?y]"
    and t: "safeTransfer (this w) (poster ?job) (maxPrice ?job) (clawd w) = Inr (clawd w')"
    and th: "this w' = this w" by simp_all
  note pn = parties_external_nth [OF pe k]
  have dn: "poster ?job \<noteq> this w" using pn st by simp
  have 1: "parties_external w'"
    by (rule parties_external_update [OF pe k th js]) simp_all
  have 2: "balanceOf (clawd w') (this w) + sum_list (map escrowed (jobs w))
       = balanceOf (clawd w) (this w) + sum_list (map escrowed (jobs w'))"
    by (rule pay_from_job [OF k js t dn]) (simp add: st)
  from 1 2 th show ?thesis by simp
next
  case (ClaimJob i aid)
  with ok have a: "claimJob env i aid w = Inr w'" by simp
  let ?job = "jobs w ! unat i"
  from claimJob_post [OF a] obtain p where k: "unat i < length (jobs w)"
    and st: "status ?job = Open"
    and le: "p \<le> maxPrice ?job"
    and js: "jobs w' = (jobs w)[unat i := ?job
                     \<lparr>status := Claimed, agent := msg_sender env, agentId := aid,
                      claimedAt := block_timestamp env, paidAmount := p\<rparr>]"
    and lt: "p < maxPrice ?job \<longrightarrow>
           unat (maxPrice ?job - p) = unat (maxPrice ?job) - unat p \<and>
           (poster ?job \<noteq> this w \<longrightarrow>
              balanceOf (clawd w') (this w) =
                balanceOf (clawd w) (this w) - (unat (maxPrice ?job) - unat p)) \<and>
           unat (maxPrice ?job) - unat p \<le> balanceOf (clawd w) (this w)"
    and eq: "p = maxPrice ?job \<longrightarrow> clawd w' = clawd w"
    and th: "this w' = this w"
    by blast
  note pn = parties_external_nth [OF pe k]
  have ule: "unat p \<le> unat (maxPrice ?job)" using le by (simp add: word_le_nat_alt)
  have 1: "parties_external w'"
    using ns by (intro parties_external_update [OF pe k th js]) simp_all
  have bal: "balanceOf (clawd w') (this w) + (unat (maxPrice ?job) - unat p)
      = balanceOf (clawd w) (this w)"
  proof (cases "p < maxPrice ?job")
    case True
    with lt pn show ?thesis by simp
  next
    case False
    with le have "p = maxPrice ?job" by simp
    with eq show ?thesis by simp
  qed
  from sum_list_map_update [OF k, of escrowed "?job
                     \<lparr>status := Claimed, agent := msg_sender env, agentId := aid,
                      claimedAt := block_timestamp env, paidAmount := p\<rparr>"] st
  have "sum_list (map escrowed (jobs w')) + unat (maxPrice ?job)
      = sum_list (map escrowed (jobs w)) + unat p"
    by (simp add: js)
  with bal ule have 2: "balanceOf (clawd w') (this w) + sum_list (map escrowed (jobs w))
       = balanceOf (clawd w) (this w) + sum_list (map escrowed (jobs w'))"
    by simp
  from 1 2 th show ?thesis by simp
next
  case (SubmitWork i uri)
  with ok have a: "submitWork env i uri w = Inr w'" by simp
  let ?job = "jobs w ! unat i"
  let ?y = "?job\<lparr>status := Submitted, submissionURI := uri\<rparr>"
  from submitWork_InrD [OF a] have k: "unat i < length (jobs w)"
    and st: "status ?job = Claimed"
    and js: "jobs w' = (jobs w)[unat i := ?y]"
    and t: "clawd w' = clawd w"
    and th: "this w' = this w" by simp_all
  note pn = parties_external_nth [OF pe k]
  have 1: "parties_external w'"
    using pn st by (intro parties_external_update [OF pe k th js]) simp_all
  have 2: "balanceOf (clawd w') (this w) + sum_list (map escrowed (jobs w))
       = balanceOf (clawd w) (this w) + sum_list (map escrowed (jobs w'))"
    by (rule keep_in_job [OF k js t]) (simp add: st)
  from 1 2 th show ?thesis by simp
next
  case (ExpireJob i)
  with ok have a: "expireJob env i w = Inr w'" by simp
  let ?job = "jobs w ! unat i"
  let ?y = "?job\<lparr>status := Expired\<rparr>"
  from expireJob_InrD [OF a] have k: "unat i < length (jobs w)"
    and st: "status ?job = Claimed"
    and js: "jobs w' = (jobs w)[unat i := ?y]"
    and t: "safeTransfer (this w) (poster ?job) (paidAmount ?job) (clawd w) = Inr (clawd w')"
    and th: "this w' = this w" by simp_all
  note pn = parties_external_nth [OF pe k]
  have dn: "poster ?job \<noteq> this w" using pn st by simp
  have 1: "parties_external w'"
    by (rule parties_external_update [OF pe k th js]) simp_all
  have 2: "balanceOf (clawd w') (this w) + sum_list (map escrowed (jobs w))
       = balanceOf (clawd w) (this w) + sum_list (map escrowed (jobs w'))"
    by (rule pay_from_job [OF k js t dn]) (simp add: st)
  from 1 2 th show ?thesis by simp
qed

lemma transact_balance:
  assumes pe: "parties_external w" and ns: "msg_sender env \<noteq> this w"
  shows "parties_external (transact env c w) \<and> this (transact env c w) = this w \<and>
         balanceOf (clawd (transact env c w)) (this w) + sum_list (map escrowed (jobs w))
           = balanceOf (clawd w) (this w) + sum_list (map escrowed (jobs (transact env c w)))"
proof (cases "exec env c w")
  case (Inl e)
  then show ?thesis using pe by (simp add: transact_def)
next
  case (Inr w')
  from exec_balance [OF Inr pe ns] Inr show ?thesis by (simp add: transact_def)
qed

lemma run_balance:
  assumes "parties_external w" and "\<forall>ec \<in> set cs. msg_sender (fst ec) \<noteq> this w"
  shows "balanceOf (clawd (run cs w)) (this w) + sum_list (map escrowed (jobs w))
           = balanceOf (clawd w) (this w) + sum_list (map escrowed (jobs (run cs w)))"
  using assms
proof (induction cs arbitrary: w)
  case Nil
  then show ?case by simp
next
  case (Cons ec cs)
  let ?w1 = "transact (fst ec) (snd ec) w"
  from Cons.prems have ns: "msg_sender (fst ec) \<noteq> this w" by simp
  from transact_balance [OF Cons.prems(1) ns, of "snd ec"]
  have pe1: "parties_external ?w1" and th: "this ?w1 = this w"
    and b: "balanceOf (clawd ?w1) (this w) + sum_list (map escrowed (jobs w))
           = balanceOf (clawd w) (this w) + sum_list (map escrowed (jobs ?w1))" by simp_all
  from Cons.prems th have "\<forall>ec \<in> set cs. msg_sender (fst ec) \<noteq> this ?w1" by simp
  from Cons.IH [OF pe1 this] th
  have "balanceOf (clawd (run cs ?w1)) (this w) + sum_list (map escrowed (jobs ?w1))
           = balanceOf (clawd ?w1) (this w) + sum_list (map escrowed (jobs (run cs ?w1)))" by simp
  with b show ?case by simp
qed

subsection \<open>The steps of the example\<close>

lemma ex_step_post:
  "postJob (env_at 1 1000) ''Test'' 100 200 60 300 (deployed 99 ex_token) = Inr (0, ex_posted)"
  by (simp add: postJob_def safeTransferFrom_def erc20_update_def deployed_def ex_defs fun_eq_iff)

lemma ex_step_claim: "claimJob (env_at 2 1030) 0 21548 ex_posted = Inr ex_claimed"
  by (simp add: claimJob_def getCurrentPrice_internal_def checked_add_def checked_sub_def
      checked_mul_def checked_div_def safeTransfer_def erc20_update_def ex_defs fun_eq_iff)

lemma ex_step_submit: "submitWork (env_at 2 1100) 0 ''ipfs://x'' ex_claimed = Inr ex_submitted"
  by (simp add: submitWork_def checked_add_def ex_defs)

lemma ex_run: "run ex_trace (deployed 99 ex_token) = ex_submitted"
  by (simp add: ex_trace_def transact_def ex_step_post ex_step_claim ex_step_submit)

lemma ex_paid_out: "paid_out 0 ex_trace (deployed 99 ex_token) = 50"
proof -
  have 1: "sent_by_board ex_posted ex_claimed = 50"
    by (simp add: sent_by_board_def ex_defs)
  have 2: "sent_by_board ex_claimed ex_submitted = 0"
    by (simp add: sent_by_board_def ex_defs)
  show ?thesis
    by (simp add: ex_trace_def transact_def ex_step_post ex_step_claim ex_step_submit 1 2)
qed

subsection \<open>Every outcome of a claim\<close>

lemma claimJob_price_error:
  assumes j: "unat jobId < length (jobs w)"
    and st: "status (jobs w ! unat jobId) = Open"
    and np: "msg_sender env \<noteq> poster (jobs w ! unat jobId)"
    and pr: "getCurrentPrice_internal (block_timestamp env) (jobs w ! unat jobId) = Inl e"
  shows "claimJob env jobId aid w = Inl e"
  using j st np by (simp add: claimJob_def Let_def pr)

lemma claimJob_total:
  assumes j: "unat jobId < length (jobs w)"
    and st: "status (jobs w ! unat jobId) = Open"
    and np: "msg_sender env \<noteq> poster (jobs w ! unat jobId)"
  shows "(\<forall>e. getCurrentPrice env jobId w = Inl e \<longrightarrow> claimJob env jobId aid w = Inl e) \<and>
     (\<forall>price. getCurrentPrice env jobId w = Inr price \<longrightarrow>
        price \<le> maxPrice (jobs w ! unat jobId) \<and>
        (price = maxPrice (jobs w ! unat jobId) \<longrightarrow>
           claimJob env jobId aid w =
             Inr (w\<lparr>jobs := (jobs w)[unat jobId := (jobs w ! unat jobId)
                        \<lparr>status := Claimed, agent := msg_sender env, agentId := aid,
                         claimedAt := block_timestamp env, paidAmount := price\<rparr>],
                    events := events w @ [JobClaimed jobId (msg_sender env) aid price]\<rparr>)) \<and>
        (price < maxPrice (jobs w ! unat jobId) \<and>
         unat (maxPrice (jobs w ! unat jobId) - price) \<le> balanceOf (clawd w) (this w) \<longrightarrow>
           claimJob env jobId aid w =
             Inr (w\<lparr>jobs := (jobs w)[unat jobId := (jobs w ! unat jobId)
                        \<lparr>status := Claimed, agent := msg_sender env, agentId := aid,
                         claimedAt := block_timestamp env, paidAmount := price\<rparr>],
                    clawd := (clawd w)
                      \<lparr>balanceOf :=
                         ((balanceOf (clawd w))
                            (this w := balanceOf (clawd w) (this w)
                                         - unat (maxPrice (jobs w ! unat jobId) - price)))
                            (poster (jobs w ! unat jobId) :=
                               ((balanceOf (clawd w))
                                  (this w := balanceOf (clawd w) (this w)
                                               - unat (maxPrice (jobs w ! unat jobId) - price)))
                                 (poster (jobs w ! unat jobId))
                               + unat (maxPrice (jobs w ! unat jobId) - price)),
                       transfers := transfers (clawd w) @
                         [(this w, poster (jobs w ! unat jobId),
                           maxPrice (jobs w ! unat jobId) - price)]\<rparr>,
                    events := events w @ [JobClaimed jobId (msg_sender env) aid price]\<rparr>)) \<and>
        (price < maxPrice (jobs w ! unat jobId) \<and>
         balanceOf (clawd w) (this w) < unat (maxPrice (jobs w ! unat jobId) - price) \<longrightarrow>
           claimJob env jobId aid w = Inl ERC20InsufficientBalance))"
proof (intro conjI allI impI)
  fix e assume "getCurrentPrice env jobId w = Inl e"
  then have "getCurrentPrice_internal (block_timestamp env) (jobs w ! unat jobId) = Inl e"
    using j by (simp add: getCurrentPrice_def)
  from claimJob_price_error [OF j st np this] show "claimJob env jobId aid w = Inl e" .
next
  fix price assume g: "getCurrentPrice env jobId w = Inr price"
  then have pr: "getCurrentPrice_internal (block_timestamp env) (jobs w ! unat jobId) = Inr price"
    using j by (simp add: getCurrentPrice_def)
  show "price \<le> maxPrice (jobs w ! unat jobId)" by (rule price_Inr_bounds [OF pr])
  note u = claimJob_unfold [OF j st np pr, of aid]
  {
    assume "price = maxPrice (jobs w ! unat jobId)"
    then show "claimJob env jobId aid w =
             Inr (w\<lparr>jobs := (jobs w)[unat jobId := (jobs w ! unat jobId)
                        \<lparr>status := Claimed, agent := msg_sender env, agentId := aid,
                         claimedAt := block_timestamp env, paidAmount := price\<rparr>],
                    events := events w @ [JobClaimed jobId (msg_sender env) aid price]\<rparr>)"
      unfolding u by simp
  }
  {
    assume "price < maxPrice (jobs w ! unat jobId) \<and>
         unat (maxPrice (jobs w ! unat jobId) - price) \<le> balanceOf (clawd w) (this w)"
    then show "claimJob env jobId aid w =
             Inr (w\<lparr>jobs := (jobs w)[unat jobId := (jobs w ! unat jobId)
                        \<lparr>status := Claimed, agent := msg_sender env, agentId := aid,
                         claimedAt := block_timestamp env, paidAmount := price\<rparr>],
                    clawd := (clawd w)
                      \<lparr>balanceOf :=
                         ((balanceOf (clawd w))
                            (this w := balanceOf (clawd w) (this w)
                                         - unat (maxPrice (jobs w ! unat jobId) - price)))
                            (poster (jobs w ! unat jobId) :=
                               ((balanceOf (clawd w))
                                  (this w := balanceOf (clawd w) (this w)
                                               - unat (maxPrice (jobs w ! unat jobId) - price)))
                                 (poster (jobs w ! unat jobId))
                               + unat (maxPrice (jobs w ! unat jobId) - price)),
                       transfers := transfers (clawd w) @
                         [(this w, poster (jobs w ! unat jobId),
                           maxPrice (jobs w ! unat jobId) - price)]\<rparr>,
                    events := events w @ [JobClaimed jobId (msg_sender env) aid price]\<rparr>)"
      unfolding u by (simp add: safeTransfer_def erc20_update_def Let_def)
  }
  {
    assume "price < maxPrice (jobs w ! unat jobId) \<and>
         balanceOf (clawd w) (this w) < unat (maxPrice (jobs w ! unat jobId) - price)"
    then show "claimJob env jobId aid w = Inl ERC20InsufficientBalance"
      unfolding u by (simp add: safeTransfer_def erc20_update_def)
  }
qed

lemma ex_step_late_claim:
  "claimJob (env_at 2 1060) 0 21548 ex_unfunded =
     Inr (ex_unfunded\<lparr>jobs := [ex_late_job],
            events := events ex_unfunded @ [JobClaimed 0 2 21548 200]\<rparr>)"
  by (simp add: claimJob_def getCurrentPrice_internal_def checked_add_def checked_sub_def
      ex_unfunded_def ex_late_job_def ex_defs)

subsection \<open>Races for a claim\<close>

lemma claim_calls_simps [simp]:
  "claim_calls jobId [] = []"
  "claim_calls jobId (ea # cs) = (fst ea, ClaimJob jobId (snd ea)) # claim_calls jobId cs"
  "length (claim_calls jobId cs) = length cs"
  by (simp_all add: claim_calls_def)

lemma length_outcomes [simp]: "length (outcomes cs w) = length cs"
  by (induction cs arbitrary: w) simp_all












lemma cx_race_poster_outcomes:
  "outcomes (claim_calls 0 cx_race_poster) ex_posted
     = [Some (Require ''Poster cannot claim own job''), None, Some (Require ''Job not open'')]"
proof -
  have 1: "claimJob (env_at 1 1030) 0 5 ex_posted = Inl (Require ''Poster cannot claim own job'')"
    by (simp add: claimJob_def ex_defs)
  have 3: "claimJob (env_at 3 1031) 0 777 ex_claimed = Inl (Require ''Job not open'')"
    by (simp add: claimJob_def ex_defs)
  show ?thesis
    by (simp add: cx_race_poster_def transact_def 1 ex_step_claim 3)
qed

lemma cx_race_posters_outcomes:
  "outcomes (claim_calls 0 cx_race_posters) ex_posted
     = [Some (Require ''Poster cannot claim own job''),
        Some (Require ''Poster cannot claim own job'')]"
proof -
  have 1: "claimJob (env_at 1 1030) 0 5 ex_posted = Inl (Require ''Poster cannot claim own job'')"
    by (simp add: claimJob_def ex_defs)
  have 2: "claimJob (env_at 1 1031) 0 6 ex_posted = Inl (Require ''Poster cannot claim own job'')"
    by (simp add: claimJob_def ex_defs)
  show ?thesis
    by (simp add: cx_race_posters_def transact_def 1 2)
qed

lemma cx_race_long_outcomes:
  "outcomes (claim_calls 0 ex_race) cx_long_posted
     = [Some (Panic 17), Some (Panic 17), Some (Panic 17)]"
proof -
  have 1: "claimJob (env_at 2 1030) 0 21548 cx_long_posted = Inl (Panic 17)"
    by (simp add: claimJob_def getCurrentPrice_internal_def checked_add_def cx_defs)
  have 2: "claimJob (env_at 3 1030) 0 777 cx_long_posted = Inl (Panic 17)"
    by (simp add: claimJob_def getCurrentPrice_internal_def checked_add_def cx_defs)
  have 3: "claimJob (env_at 4 1031) 0 5 cx_long_posted = Inl (Panic 17)"
    by (simp add: claimJob_def getCurrentPrice_internal_def checked_add_def cx_defs)
  show ?thesis
    by (simp add: ex_race_def transact_def 1 2 3)
qed

section \<open>Value conservation\<close>

text \<open>
  Claim C1: value is conserved per job. In every state the board reaches from its
  deployment by any sequence of calls (\<open>postJob\<close>, \<open>claimJob\<close>, \<open>submitWork\<close>,
  \<open>approveWork\<close>, \<open>disputeWork\<close>, \<open>cancelJob\<close>, \<open>expireJob\<close>, successful or reverted,
  by any callers at any times), for every job the part of its \<open>maxPrice\<close> still in
  escrow plus everything the board has paid out or refunded during the calls on that job
  equals exactly \<open>maxPrice\<close>. No call creates or destroys value: as long as the board
  itself is not a caller, its token balance is what it held at deployment plus the sum of
  the escrowed parts of all jobs.
\<close>

theorem value_conservation:
  assumes fresh: "jobs w0 = []"
  shows "(\<forall>j < length (jobs (run cs w0)).
            escrowed (jobs (run cs w0) ! j) + paid_out j cs w0
              = unat (maxPrice (jobs (run cs w0) ! j))) \<and>
         ((\<forall>ec \<in> set cs. msg_sender (fst ec) \<noteq> this w0) \<longrightarrow>
            balanceOf (clawd (run cs w0)) (this w0)
              = balanceOf (clawd w0) (this w0) + sum_list (map escrowed (jobs (run cs w0))))"
proof (intro conjI allI impI)
  fix j assume "j < length (jobs (run cs w0))"
  moreover have "\<not> j < length (jobs w0)" using fresh by simp
  ultimately show "escrowed (jobs (run cs w0) ! j) + paid_out j cs w0
      = unat (maxPrice (jobs (run cs w0) ! j))"
    by (intro run_conserves_new)
next
  assume ns: "\<forall>ec \<in> set cs. msg_sender (fst ec) \<noteq> this w0"
  have pe: "parties_external w0" using fresh by (simp add: parties_external_def)
  from run_balance [OF pe ns] fresh
  show "balanceOf (clawd (run cs w0)) (this w0)
      = balanceOf (clawd w0) (this w0) + sum_list (map escrowed (jobs (run cs w0)))"
    by simp
qed

text \<open>
  Claim C1, witness: after the example job is posted, claimed at 150 and submitted, 150
  are in escrow and 50 have been refunded, of a \<open>maxPrice\<close> of 200; the board holds 150.
\<close>

theorem value_conservation_witness:
  "run ex_trace (deployed 99 ex_token) = ex_submitted \<and>
   escrowed (jobs ex_submitted ! 0) = 150 \<and>
   paid_out 0 ex_trace (deployed 99 ex_token) = 50 \<and>
   unat (maxPrice (jobs ex_submitted ! 0)) = 200 \<and>
   balanceOf (clawd ex_submitted) 99 = 0 + sum_list (map escrowed (jobs ex_submitted))"
proof -
  have fresh: "jobs (deployed 99 ex_token) = []" by (simp add: deployed_def)
  have ns: "\<forall>ec \<in> set ex_trace. msg_sender (fst ec) \<noteq> this (deployed 99 ex_token)"
    by (simp add: ex_trace_def deployed_def env_at_def)
  have j: "0 < length (jobs (run ex_trace (deployed 99 ex_token)))"
    unfolding ex_run by (simp add: ex_posted_def ex_claimed_def ex_submitted_def)
  note T = value_conservation [OF fresh, of ex_trace]
  from T j have a: "escrowed (jobs (run ex_trace (deployed 99 ex_token)) ! 0)
      + paid_out 0 ex_trace (deployed 99 ex_token)
      = unat (maxPrice (jobs (run ex_trace (deployed 99 ex_token)) ! 0))" by blast
  from T ns have b: "balanceOf (clawd (run ex_trace (deployed 99 ex_token))) (this (deployed 99 ex_token))
      = balanceOf (clawd (deployed 99 ex_token)) (this (deployed 99 ex_token))
        + sum_list (map escrowed (jobs (run ex_trace (deployed 99 ex_token))))" by blast
  have c: "escrowed (jobs ex_submitted ! 0) = 150" "unat (maxPrice (jobs ex_submitted ! 0)) = 200"
    by (simp_all add: ex_defs)
  have d: "balanceOf (clawd (deployed 99 ex_token)) 99 = 0" "this (deployed 99 ex_token) = 99"
    by (simp_all add: deployed_def ex_defs)
  from a b c d ex_run ex_paid_out show ?thesis by simp
qed

section \<open>The auction price\<close>

text \<open>
  Claim C2 as the specification words it: for every existing job, \<open>currentPrice\<close> is
  \<open>minPrice + (maxPrice - minPrice) * elapsed / auctionDuration\<close> with
  \<open>elapsed = clamp(now - auctionStart, 0, auctionDuration)\<close>. The contract computes in
  checked \<open>uint256\<close> arithmetic and reverts where that overflows: the job
  \<open>cx_long_job\<close>, which \<open>postJob\<close> accepts, has \<open>auctionStart + auctionDuration\<close>
  beyond \<open>uint256\<close>, and at the start of its auction \<open>getCurrentPrice\<close> reverts with
  \<open>Panic(0x11)\<close> where the formula gives \<open>minPrice = 100\<close>.
\<close>

theorem getCurrentPrice_formula_counterexample:
  "postJob (env_at 1 1000) ''Test'' 100 200 max_uint256 300 (deployed 99 ex_token)
     = Inr (0, cx_long_posted) \<and>
   getCurrentPrice (env_at 2 1000) 0 cx_long_posted = Inl (Panic 17) \<and>
   spec_currentPrice (jobs cx_long_posted ! 0) 1000 = 100"
  by (simp add: postJob_def getCurrentPrice_def getCurrentPrice_internal_def checked_add_def
      safeTransferFrom_def erc20_update_def deployed_def ex_token_def cx_defs
      spec_currentPrice_def spec_elapsed_def clamp_def trunc_div_def fun_eq_iff)

text \<open>
  Claim C2, amended: an unknown \<open>jobId\<close> fails with "Job does not exist"; for an
  existing job with \<open>minPrice \<le> maxPrice\<close> and \<open>auctionDuration > 0\<close>, at every time
  \<open>now \<ge> auctionStart\<close> at which the contract's arithmetic does not overflow
  (\<open>price_defined\<close>), \<open>getCurrentPrice\<close> returns exactly the specification's price,
  which is \<open>minPrice\<close> at \<open>now = auctionStart\<close> and \<open>maxPrice\<close> from
  \<open>auctionStart + auctionDuration\<close> on.
\<close>

theorem getCurrentPrice_formula:
  "(\<not> unat jobId < length (jobs w) \<longrightarrow>
      getCurrentPrice env jobId w = Inl (Require ''Job does not exist'')) \<and>
   (unat jobId < length (jobs w) \<and>
    minPrice (jobs w ! unat jobId) \<le> maxPrice (jobs w ! unat jobId) \<and>
    0 < auctionDuration (jobs w ! unat jobId) \<and>
    price_defined (jobs w ! unat jobId) (block_timestamp env) \<longrightarrow>
      (\<exists>p. getCurrentPrice env jobId w = Inr p \<and>
           uint p = spec_currentPrice (jobs w ! unat jobId) (block_timestamp env) \<and>
           (block_timestamp env = auctionStart (jobs w ! unat jobId) \<longrightarrow>
              p = minPrice (jobs w ! unat jobId)) \<and>
           (unat (auctionStart (jobs w ! unat jobId)) + unat (auctionDuration (jobs w ! unat jobId))
              \<le> unat (block_timestamp env) \<longrightarrow> p = maxPrice (jobs w ! unat jobId))))"
proof (intro conjI impI)
  assume "\<not> unat jobId < length (jobs w)"
  then show "getCurrentPrice env jobId w = Inl (Require ''Job does not exist'')"
    by (simp add: getCurrentPrice_def)
next
  let ?job = "jobs w ! unat jobId" and ?now = "block_timestamp env"
  assume h: "unat jobId < length (jobs w) \<and> minPrice ?job \<le> maxPrice ?job \<and>
    0 < auctionDuration ?job \<and> price_defined ?job ?now"
  then have mm: "minPrice ?job \<le> maxPrice ?job" and d: "0 < auctionDuration ?job"
    and pd: "price_defined ?job ?now" and j: "unat jobId < length (jobs w)" by simp_all
  have ge: "unat (auctionStart ?job) \<le> unat ?now" using pd by (simp add: price_defined_def)
  from price_nat [OF mm pd] obtain p where
    p: "getCurrentPrice_internal ?now ?job = Inr p"
    and up: "unat p = (if unat ?now < unat (auctionStart ?job) + unat (auctionDuration ?job)
               then unat (minPrice ?job) +
                 (unat (maxPrice ?job) - unat (minPrice ?job)) * (unat ?now - unat (auctionStart ?job))
                   div unat (auctionDuration ?job)
               else unat (maxPrice ?job))" by blast
  have dpos: "0 < unat (auctionDuration ?job)" using d by (simp add: word_less_nat_alt)
  have 1: "getCurrentPrice env jobId w = Inr p" using j p by (simp add: getCurrentPrice_def)
  have 2: "uint p = spec_currentPrice ?job ?now"
    unfolding spec_price_nat [OF mm d ge] up [symmetric] by (rule uint_nat)
  have 3: "?now = auctionStart ?job \<longrightarrow> p = minPrice ?job"
  proof
    assume "?now = auctionStart ?job"
    then have "unat p = unat (minPrice ?job)" using up dpos by simp
    then show "p = minPrice ?job" by (rule unat_word_eqI)
  qed
  have 4: "unat (auctionStart ?job) + unat (auctionDuration ?job) \<le> unat ?now \<longrightarrow> p = maxPrice ?job"
  proof
    assume "unat (auctionStart ?job) + unat (auctionDuration ?job) \<le> unat ?now"
    then have "unat p = unat (maxPrice ?job)" using up by simp
    then show "p = maxPrice ?job" by (rule unat_word_eqI)
  qed
  show "\<exists>p. getCurrentPrice env jobId w = Inr p \<and>
           uint p = spec_currentPrice ?job ?now \<and>
           (?now = auctionStart ?job \<longrightarrow> p = minPrice ?job) \<and>
           (unat (auctionStart ?job) + unat (auctionDuration ?job) \<le> unat ?now \<longrightarrow> p = maxPrice ?job)"
    using 1 2 3 4 by blast
qed

text \<open>
  Claim C2, witness: in the posted example job 7 does not exist, and job 0 costs 150
  thirty seconds into its sixty-second auction from 100 to 200.
\<close>

theorem getCurrentPrice_formula_witness:
  "getCurrentPrice (env_at 2 1030) 7 ex_posted = Inl (Require ''Job does not exist'') \<and>
   (\<exists>p. getCurrentPrice (env_at 2 1030) 0 ex_posted = Inr p \<and> uint p = 150)"
proof -
  have pd: "price_defined (jobs ex_posted ! unat (0::uint256)) (block_timestamp (env_at 2 1030))"
    by (simp add: price_defined_def cx_defs)
  have sp: "spec_currentPrice (jobs ex_posted ! unat (0::uint256)) (block_timestamp (env_at 2 1030)) = 150"
    by (simp add: spec_currentPrice_def spec_elapsed_def clamp_def trunc_div_def cx_defs)
  have h: "unat (0::uint256) < length (jobs ex_posted) \<and>
    minPrice (jobs ex_posted ! unat (0::uint256)) \<le> maxPrice (jobs ex_posted ! unat (0::uint256)) \<and>
    0 < auctionDuration (jobs ex_posted ! unat (0::uint256)) \<and>
    price_defined (jobs ex_posted ! unat (0::uint256)) (block_timestamp (env_at 2 1030))"
    using pd by (simp add: cx_defs)
  have n: "\<not> unat (7::uint256) < length (jobs ex_posted)" by (simp add: cx_defs)
  from getCurrentPrice_formula [of 7 ex_posted "env_at 2 1030"] n
  have a: "getCurrentPrice (env_at 2 1030) 7 ex_posted = Inl (Require ''Job does not exist'')"
    by blast
  from getCurrentPrice_formula [of 0 ex_posted "env_at 2 1030"] h
  obtain p where "getCurrentPrice (env_at 2 1030) 0 ex_posted = Inr p"
    "uint p = spec_currentPrice (jobs ex_posted ! unat (0::uint256)) (block_timestamp (env_at 2 1030))"
    by blast
  with sp a show ?thesis by auto
qed

text \<open>
  Claim C7 as the specification words it: for every validly posted job the price is
  \<open>minPrice\<close> at \<open>elapsed = 0\<close>. The job \<open>cx_long_job\<close> is validly posted
  (\<open>maxPrice > 0\<close>, \<open>maxPrice \<ge> minPrice\<close>, \<open>auctionDuration > 0\<close>), and at
  \<open>elapsed = 0\<close> \<open>_getCurrentPrice\<close> reverts with \<open>Panic(0x11)\<close>.
\<close>

theorem price_monotone_bounded_counterexample:
  "0 < maxPrice cx_long_job \<and> minPrice cx_long_job \<le> maxPrice cx_long_job \<and>
   0 < auctionDuration cx_long_job \<and>
   getCurrentPrice_internal (auctionStart cx_long_job) cx_long_job = Inl (Panic 17)"
  by (simp add: getCurrentPrice_internal_def checked_add_def cx_defs)

text \<open>
  Claim C7, amended: for every validly posted job and all times \<open>t1 \<le> t2\<close> at which
  the contract's arithmetic does not overflow (\<open>price_defined\<close>), \<open>_getCurrentPrice\<close>
  returns prices \<open>p1 \<le> p2\<close> within \<open>[minPrice, maxPrice]\<close>; the price is \<open>minPrice\<close> at
  \<open>elapsed = 0\<close> and \<open>maxPrice\<close> for every \<open>elapsed \<ge> auctionDuration\<close>.
\<close>

theorem price_monotone_bounded:
  assumes hi: "0 < maxPrice job" and mm: "minPrice job \<le> maxPrice job"
    and d: "0 < auctionDuration job"
    and pd1: "price_defined job t1" and pd2: "price_defined job t2" and le: "t1 \<le> t2"
  shows "\<exists>p1 p2. getCurrentPrice_internal t1 job = Inr p1 \<and>
           getCurrentPrice_internal t2 job = Inr p2 \<and>
           p1 \<le> p2 \<and> minPrice job \<le> p1 \<and> p2 \<le> maxPrice job \<and>
           (t1 = auctionStart job \<longrightarrow> p1 = minPrice job) \<and>
           (unat (auctionStart job) + unat (auctionDuration job) \<le> unat t2 \<longrightarrow> p2 = maxPrice job)"
proof -
  let ?s = "unat (auctionStart job)" and ?d = "unat (auctionDuration job)"
  let ?lo = "unat (minPrice job)" and ?hi = "unat (maxPrice job)"
  let ?f = "\<lambda>t. if t < ?s + ?d then ?lo + (?hi - ?lo) * (t - ?s) div ?d else ?hi"
  from price_nat [OF mm pd1] obtain p1 where
    p1: "getCurrentPrice_internal t1 job = Inr p1" and u1: "unat p1 = ?f (unat t1)" by blast
  from price_nat [OF mm pd2] obtain p2 where
    p2: "getCurrentPrice_internal t2 job = Inr p2" and u2: "unat p2 = ?f (unat t2)" by blast
  have lohi: "?lo \<le> ?hi" using mm by (simp add: word_le_nat_alt)
  have g1: "?s \<le> unat t1" using pd1 by (simp add: price_defined_def)
  have g2: "?s \<le> unat t2" using pd2 by (simp add: price_defined_def)
  have t12: "unat t1 \<le> unat t2" using le by (simp add: word_le_nat_alt)
  have dpos: "0 < ?d" using d by (simp add: word_less_nat_alt)
  have a: "p1 \<le> p2"
    unfolding word_le_nat_alt u1 u2 by (rule price_fun_mono [OF lohi g1 t12])
  have b: "minPrice job \<le> p1"
    unfolding word_le_nat_alt u1 by (rule price_fun_bounds(1) [OF lohi g1])
  have c: "p2 \<le> maxPrice job"
    unfolding word_le_nat_alt u2 by (rule price_fun_bounds(2) [OF lohi g2])
  have e: "t1 = auctionStart job \<longrightarrow> p1 = minPrice job"
  proof
    assume "t1 = auctionStart job"
    then have "unat p1 = ?lo" using u1 dpos by simp
    then show "p1 = minPrice job" by (rule unat_word_eqI)
  qed
  have f: "?s + ?d \<le> unat t2 \<longrightarrow> p2 = maxPrice job"
  proof
    assume "?s + ?d \<le> unat t2"
    then have "unat p2 = ?hi" using u2 by simp
    then show "p2 = maxPrice job" by (rule unat_word_eqI)
  qed
  show ?thesis using p1 p2 a b c e f by blast
qed

text \<open>
  Claim C7, witness: the example job at times 1010 and 1030 of its auction.
\<close>

theorem price_monotone_bounded_witness:
  "\<exists>p1 p2. getCurrentPrice_internal 1010 ex_job = Inr p1 \<and>
     getCurrentPrice_internal 1030 ex_job = Inr p2 \<and> p1 \<le> p2 \<and> 100 \<le> p1 \<and> p2 \<le> 200"
proof -
  have "\<exists>p1 p2. getCurrentPrice_internal 1010 ex_job = Inr p1 \<and>
           getCurrentPrice_internal 1030 ex_job = Inr p2 \<and>
           p1 \<le> p2 \<and> minPrice ex_job \<le> p1 \<and> p2 \<le> maxPrice ex_job \<and>
           (1010 = auctionStart ex_job \<longrightarrow> p1 = minPrice ex_job) \<and>
           (unat (auctionStart ex_job) + unat (auctionDuration ex_job) \<le> unat (1030::uint256)
              \<longrightarrow> p2 = maxPrice ex_job)"
    by (rule price_monotone_bounded) (simp_all add: price_defined_def ex_job_def)
  then show ?thesis by (simp add: ex_job_def)
qed

section \<open>Claiming a job\<close>

text \<open>
  Claim C3: \<open>claimJob\<close> on an open job, by a caller other than the poster. A successful
  call was made on an existing open job by a caller other than the poster; it evaluates
  the auction price at the time of the call, sets the status to \<open>Claimed\<close>, the agent to
  the caller, records the agent id, sets \<open>claimedAt\<close> to the time of the call and
  \<open>paidAmount\<close> to the price; when the price is below \<open>maxPrice\<close> it transfers exactly
  \<open>maxPrice - price\<close> from the board to the poster, and when the price is \<open>maxPrice\<close> it
  leaves the token untouched. Conversely, on every open job and for every caller other than
  the poster the outcome of the call is determined: it fails with the error of the price
  when the price is not defined; when the price is \<open>maxPrice\<close>, so that the refund is zero,
  it succeeds whatever the board holds, and the new state differs from the old one in the
  job record and the \<open>JobClaimed\<close> event only, with no transfer; when the price is below
  \<open>maxPrice\<close> it succeeds with the refund of \<open>maxPrice - price\<close> moved from the board to
  the poster if the board holds that much, and fails with the token's error otherwise. In
  the example job (100 to 200 over 60 seconds) a claim after 30 seconds locks 150,
  refunds 50 and leaves 150 in escrow; a claim after 60 seconds, on a board that holds no
  token at all, succeeds at price 200 without a transfer.
\<close>

theorem claimJob_postcondition:
  "(claimJob env jobId aid w = Inr w' \<longrightarrow>
     unat jobId < length (jobs w) \<and> status (jobs w ! unat jobId) = Open \<and>
       msg_sender env \<noteq> poster (jobs w ! unat jobId) \<and>
       (\<exists>price. getCurrentPrice env jobId w = Inr price \<and>
          price \<le> maxPrice (jobs w ! unat jobId) \<and>
          jobs w' = (jobs w)[unat jobId := (jobs w ! unat jobId)
                       \<lparr>status := Claimed, agent := msg_sender env, agentId := aid,
                        claimedAt := block_timestamp env, paidAmount := price\<rparr>] \<and>
          (price < maxPrice (jobs w ! unat jobId) \<longrightarrow>
             unat (maxPrice (jobs w ! unat jobId)) - unat price \<le> balanceOf (clawd w) (this w) \<and>
             transfers (clawd w') = transfers (clawd w) @
               [(this w, poster (jobs w ! unat jobId), maxPrice (jobs w ! unat jobId) - price)] \<and>
             unat (maxPrice (jobs w ! unat jobId) - price) =
               unat (maxPrice (jobs w ! unat jobId)) - unat price \<and>
             (poster (jobs w ! unat jobId) \<noteq> this w \<longrightarrow>
                balanceOf (clawd w') (this w) =
                  balanceOf (clawd w) (this w) - (unat (maxPrice (jobs w ! unat jobId)) - unat price) \<and>
                balanceOf (clawd w') (poster (jobs w ! unat jobId)) =
                  balanceOf (clawd w) (poster (jobs w ! unat jobId)) +
                    (unat (maxPrice (jobs w ! unat jobId)) - unat price))) \<and>
          (price = maxPrice (jobs w ! unat jobId) \<longrightarrow> clawd w' = clawd w) \<and>
          allowance (clawd w') = allowance (clawd w) \<and>
          agentStats w' = agentStats w \<and> this w' = this w \<and>
          events w' = events w @ [JobClaimed jobId (msg_sender env) aid price])) \<and>
   (unat jobId < length (jobs w) \<and> status (jobs w ! unat jobId) = Open \<and>
    msg_sender env \<noteq> poster (jobs w ! unat jobId) \<longrightarrow>
     (\<forall>e. getCurrentPrice env jobId w = Inl e \<longrightarrow> claimJob env jobId aid w = Inl e) \<and>
       (\<forall>price. getCurrentPrice env jobId w = Inr price \<longrightarrow>
          price \<le> maxPrice (jobs w ! unat jobId) \<and>
          (price = maxPrice (jobs w ! unat jobId) \<longrightarrow>
             claimJob env jobId aid w =
               Inr (w\<lparr>jobs := (jobs w)[unat jobId := (jobs w ! unat jobId)
                          \<lparr>status := Claimed, agent := msg_sender env, agentId := aid,
                           claimedAt := block_timestamp env, paidAmount := price\<rparr>],
                      events := events w @ [JobClaimed jobId (msg_sender env) aid price]\<rparr>)) \<and>
          (price < maxPrice (jobs w ! unat jobId) \<and>
           unat (maxPrice (jobs w ! unat jobId) - price) \<le> balanceOf (clawd w) (this w) \<longrightarrow>
             claimJob env jobId aid w =
               Inr (w\<lparr>jobs := (jobs w)[unat jobId := (jobs w ! unat jobId)
                          \<lparr>status := Claimed, agent := msg_sender env, agentId := aid,
                           claimedAt := block_timestamp env, paidAmount := price\<rparr>],
                      clawd := (clawd w)
                        \<lparr>balanceOf :=
                           ((balanceOf (clawd w))
                              (this w := balanceOf (clawd w) (this w)
                                           - unat (maxPrice (jobs w ! unat jobId) - price)))
                              (poster (jobs w ! unat jobId) :=
                                 ((balanceOf (clawd w))
                                    (this w := balanceOf (clawd w) (this w)
                                                 - unat (maxPrice (jobs w ! unat jobId) - price)))
                                   (poster (jobs w ! unat jobId))
                                 + unat (maxPrice (jobs w ! unat jobId) - price)),
                         transfers := transfers (clawd w) @
                           [(this w, poster (jobs w ! unat jobId),
                             maxPrice (jobs w ! unat jobId) - price)]\<rparr>,
                      events := events w @ [JobClaimed jobId (msg_sender env) aid price]\<rparr>)) \<and>
          (price < maxPrice (jobs w ! unat jobId) \<and>
           balanceOf (clawd w) (this w) < unat (maxPrice (jobs w ! unat jobId) - price) \<longrightarrow>
             claimJob env jobId aid w = Inl ERC20InsufficientBalance))) \<and>
   claimJob (env_at 2 1030) 0 21548 ex_posted = Inr ex_claimed \<and>
   paidAmount (jobs ex_claimed ! 0) = 150 \<and>
   transfers (clawd ex_claimed) = transfers (clawd ex_posted) @ [(99, 1, 50)] \<and>
   balanceOf (clawd ex_claimed) 99 = 150 \<and> escrowed (jobs ex_claimed ! 0) = 150 \<and>
   claimJob (env_at 2 1060) 0 21548 ex_unfunded =
     Inr (ex_unfunded\<lparr>jobs := [ex_late_job],
            events := events ex_unfunded @ [JobClaimed 0 2 21548 200]\<rparr>)"
proof -
  have a: "claimJob env jobId aid w = Inr w' \<longrightarrow>
     unat jobId < length (jobs w) \<and> status (jobs w ! unat jobId) = Open \<and>
       msg_sender env \<noteq> poster (jobs w ! unat jobId) \<and>
       (\<exists>price. getCurrentPrice env jobId w = Inr price \<and>
          price \<le> maxPrice (jobs w ! unat jobId) \<and>
          jobs w' = (jobs w)[unat jobId := (jobs w ! unat jobId)
                       \<lparr>status := Claimed, agent := msg_sender env, agentId := aid,
                        claimedAt := block_timestamp env, paidAmount := price\<rparr>] \<and>
          (price < maxPrice (jobs w ! unat jobId) \<longrightarrow>
             unat (maxPrice (jobs w ! unat jobId)) - unat price \<le> balanceOf (clawd w) (this w) \<and>
             transfers (clawd w') = transfers (clawd w) @
               [(this w, poster (jobs w ! unat jobId), maxPrice (jobs w ! unat jobId) - price)] \<and>
             unat (maxPrice (jobs w ! unat jobId) - price) =
               unat (maxPrice (jobs w ! unat jobId)) - unat price \<and>
             (poster (jobs w ! unat jobId) \<noteq> this w \<longrightarrow>
                balanceOf (clawd w') (this w) =
                  balanceOf (clawd w) (this w) - (unat (maxPrice (jobs w ! unat jobId)) - unat price) \<and>
                balanceOf (clawd w') (poster (jobs w ! unat jobId)) =
                  balanceOf (clawd w) (poster (jobs w ! unat jobId)) +
                    (unat (maxPrice (jobs w ! unat jobId)) - unat price))) \<and>
          (price = maxPrice (jobs w ! unat jobId) \<longrightarrow> clawd w' = clawd w) \<and>
          allowance (clawd w') = allowance (clawd w) \<and>
          agentStats w' = agentStats w \<and> this w' = this w \<and>
          events w' = events w @ [JobClaimed jobId (msg_sender env) aid price])"
    by (intro impI) (rule claimJob_post)
  have b: "unat jobId < length (jobs w) \<and> status (jobs w ! unat jobId) = Open \<and>
    msg_sender env \<noteq> poster (jobs w ! unat jobId) \<longrightarrow>
     (\<forall>e. getCurrentPrice env jobId w = Inl e \<longrightarrow> claimJob env jobId aid w = Inl e) \<and>
       (\<forall>price. getCurrentPrice env jobId w = Inr price \<longrightarrow>
          price \<le> maxPrice (jobs w ! unat jobId) \<and>
          (price = maxPrice (jobs w ! unat jobId) \<longrightarrow>
             claimJob env jobId aid w =
               Inr (w\<lparr>jobs := (jobs w)[unat jobId := (jobs w ! unat jobId)
                          \<lparr>status := Claimed, agent := msg_sender env, agentId := aid,
                           claimedAt := block_timestamp env, paidAmount := price\<rparr>],
                      events := events w @ [JobClaimed jobId (msg_sender env) aid price]\<rparr>)) \<and>
          (price < maxPrice (jobs w ! unat jobId) \<and>
           unat (maxPrice (jobs w ! unat jobId) - price) \<le> balanceOf (clawd w) (this w) \<longrightarrow>
             claimJob env jobId aid w =
               Inr (w\<lparr>jobs := (jobs w)[unat jobId := (jobs w ! unat jobId)
                          \<lparr>status := Claimed, agent := msg_sender env, agentId := aid,
                           claimedAt := block_timestamp env, paidAmount := price\<rparr>],
                      clawd := (clawd w)
                        \<lparr>balanceOf :=
                           ((balanceOf (clawd w))
                              (this w := balanceOf (clawd w) (this w)
                                           - unat (maxPrice (jobs w ! unat jobId) - price)))
                              (poster (jobs w ! unat jobId) :=
                                 ((balanceOf (clawd w))
                                    (this w := balanceOf (clawd w) (this w)
                                                 - unat (maxPrice (jobs w ! unat jobId) - price)))
                                   (poster (jobs w ! unat jobId))
                                 + unat (maxPrice (jobs w ! unat jobId) - price)),
                         transfers := transfers (clawd w) @
                           [(this w, poster (jobs w ! unat jobId),
                             maxPrice (jobs w ! unat jobId) - price)]\<rparr>,
                      events := events w @ [JobClaimed jobId (msg_sender env) aid price]\<rparr>)) \<and>
          (price < maxPrice (jobs w ! unat jobId) \<and>
           balanceOf (clawd w) (this w) < unat (maxPrice (jobs w ! unat jobId) - price) \<longrightarrow>
             claimJob env jobId aid w = Inl ERC20InsufficientBalance))"
  proof
    assume "unat jobId < length (jobs w) \<and> status (jobs w ! unat jobId) = Open \<and>
      msg_sender env \<noteq> poster (jobs w ! unat jobId)"
    then have j: "unat jobId < length (jobs w)" and st: "status (jobs w ! unat jobId) = Open"
      and np: "msg_sender env \<noteq> poster (jobs w ! unat jobId)" by simp_all
    show "(\<forall>e. getCurrentPrice env jobId w = Inl e \<longrightarrow> claimJob env jobId aid w = Inl e) \<and>
         (\<forall>price. getCurrentPrice env jobId w = Inr price \<longrightarrow>
            price \<le> maxPrice (jobs w ! unat jobId) \<and>
            (price = maxPrice (jobs w ! unat jobId) \<longrightarrow>
               claimJob env jobId aid w =
                 Inr (w\<lparr>jobs := (jobs w)[unat jobId := (jobs w ! unat jobId)
                            \<lparr>status := Claimed, agent := msg_sender env, agentId := aid,
                             claimedAt := block_timestamp env, paidAmount := price\<rparr>],
                        events := events w @ [JobClaimed jobId (msg_sender env) aid price]\<rparr>)) \<and>
            (price < maxPrice (jobs w ! unat jobId) \<and>
             unat (maxPrice (jobs w ! unat jobId) - price) \<le> balanceOf (clawd w) (this w) \<longrightarrow>
               claimJob env jobId aid w =
                 Inr (w\<lparr>jobs := (jobs w)[unat jobId := (jobs w ! unat jobId)
                            \<lparr>status := Claimed, agent := msg_sender env, agentId := aid,
                             claimedAt := block_timestamp env, paidAmount := price\<rparr>],
                        clawd := (clawd w)
                          \<lparr>balanceOf :=
                             ((balanceOf (clawd w))
                                (this w := balanceOf (clawd w) (this w)
                                             - unat (maxPrice (jobs w ! unat jobId) - price)))
                                (poster (jobs w ! unat jobId) :=
                                   ((balanceOf (clawd w))
                                      (this w := balanceOf (clawd w) (this w)
                                                   - unat (maxPrice (jobs w ! unat jobId) - price)))
                                     (poster (jobs w ! unat jobId))
                                   + unat (maxPrice (jobs w ! unat jobId) - price)),
                           transfers := transfers (clawd w) @
                             [(this w, poster (jobs w ! unat jobId),
                               maxPrice (jobs w ! unat jobId) - price)]\<rparr>,
                        events := events w @ [JobClaimed jobId (msg_sender env) aid price]\<rparr>)) \<and>
            (price < maxPrice (jobs w ! unat jobId) \<and>
             balanceOf (clawd w) (this w) < unat (maxPrice (jobs w ! unat jobId) - price) \<longrightarrow>
               claimJob env jobId aid w = Inl ERC20InsufficientBalance))"
      by (rule claimJob_total [OF j st np])
  qed
  have c: "paidAmount (jobs ex_claimed ! 0) = 150"
    and d: "transfers (clawd ex_claimed) = transfers (clawd ex_posted) @ [(99, 1, 50)]"
    and e: "balanceOf (clawd ex_claimed) 99 = 150" and f: "escrowed (jobs ex_claimed ! 0) = 150"
    by (simp_all add: escrowed_def ex_defs)
  from a b ex_step_claim c d e f ex_step_late_claim show ?thesis by (intro conjI)
qed

text \<open>
  Claim C3, witness: the claim of the example job at time 1030 by agent 2; on the board
  without tokens, the claim at time 1060 (price 200, no refund) succeeds and the claim at
  time 1030 (price 150, refund 50) fails with the token's error.
\<close>

theorem claimJob_postcondition_witness:
  "claimJob (env_at 2 1030) 0 21548 ex_posted = Inr ex_claimed \<and>
   getCurrentPrice (env_at 2 1030) 0 ex_posted = Inr 150 \<and>
   jobs ex_claimed = [ex_job\<lparr>status := Claimed, agent := 2, agentId := 21548,
                             claimedAt := 1030, paidAmount := 150\<rparr>] \<and>
   balanceOf (clawd ex_claimed) 1 = balanceOf (clawd ex_posted) 1 + 50 \<and>
   balanceOf (clawd ex_unfunded) (this ex_unfunded) = 0 \<and>
   getCurrentPrice (env_at 2 1060) 0 ex_unfunded = Inr 200 \<and>
   claimJob (env_at 2 1060) 0 21548 ex_unfunded =
     Inr (ex_unfunded\<lparr>jobs := [ex_late_job],
            events := events ex_unfunded @ [JobClaimed 0 2 21548 200]\<rparr>) \<and>
   claimJob (env_at 2 1030) 0 21548 ex_unfunded = Inl ERC20InsufficientBalance"
proof -
  note T = claimJob_postcondition [of "env_at 2 1030" 0 21548 ex_posted ex_claimed]
  from T have ok: "claimJob (env_at 2 1030) 0 21548 ex_posted = Inr ex_claimed"
    by (elim conjE)
  from T have A: "claimJob (env_at 2 1030) 0 21548 ex_posted = Inr ex_claimed \<longrightarrow>
      unat (0::uint256) < length (jobs ex_posted) \<and>
      status (jobs ex_posted ! unat (0::uint256)) = Open \<and>
      msg_sender (env_at 2 1030) \<noteq> poster (jobs ex_posted ! unat (0::uint256)) \<and>
      (\<exists>price. getCurrentPrice (env_at 2 1030) 0 ex_posted = Inr price \<and>
         price \<le> maxPrice (jobs ex_posted ! unat (0::uint256)) \<and>
         jobs ex_claimed = (jobs ex_posted)[unat (0::uint256) := (jobs ex_posted ! unat (0::uint256))
                     \<lparr>status := Claimed, agent := msg_sender (env_at 2 1030), agentId := 21548,
                      claimedAt := block_timestamp (env_at 2 1030), paidAmount := price\<rparr>])"
    by (elim conjE) blast
  have g1: "getCurrentPrice (env_at 2 1030) 0 ex_posted = Inr 150"
    by (simp add: getCurrentPrice_def getCurrentPrice_internal_def checked_add_def
        checked_sub_def checked_mul_def checked_div_def ex_defs)
  from A ok g1 have js: "jobs ex_claimed = [ex_job\<lparr>status := Claimed, agent := 2, agentId := 21548,
                             claimedAt := 1030, paidAmount := 150\<rparr>]"
    by (simp add: ex_posted_def env_at_def)
  have bal: "balanceOf (clawd ex_claimed) 1 = balanceOf (clawd ex_posted) 1 + 50"
    "balanceOf (clawd ex_unfunded) (this ex_unfunded) = 0"
    by (simp_all add: ex_unfunded_def ex_defs)
  have pre: "unat (0::uint256) < length (jobs ex_unfunded) \<and>
      status (jobs ex_unfunded ! unat (0::uint256)) = Open \<and>
      msg_sender (env_at 2 1060) \<noteq> poster (jobs ex_unfunded ! unat (0::uint256))"
    "unat (0::uint256) < length (jobs ex_unfunded) \<and>
      status (jobs ex_unfunded ! unat (0::uint256)) = Open \<and>
      msg_sender (env_at 2 1030) \<noteq> poster (jobs ex_unfunded ! unat (0::uint256))"
    by (simp_all add: ex_unfunded_def ex_defs)
  have g2: "getCurrentPrice (env_at 2 1060) 0 ex_unfunded = Inr 200"
    by (simp add: getCurrentPrice_def getCurrentPrice_internal_def checked_add_def
        ex_unfunded_def ex_defs)
  have g3: "getCurrentPrice (env_at 2 1030) 0 ex_unfunded = Inr 150"
    by (simp add: getCurrentPrice_def getCurrentPrice_internal_def checked_add_def
        checked_sub_def checked_mul_def checked_div_def ex_unfunded_def ex_defs)
  have m: "maxPrice (jobs ex_unfunded ! unat (0::uint256)) = 200"
    "balanceOf (clawd ex_unfunded) (this ex_unfunded) < unat (200 - 150 :: uint256)"
    "(150::uint256) < 200"
    by (simp_all add: ex_unfunded_def ex_defs)
  note L = claimJob_postcondition [of "env_at 2 1060" 0 21548 ex_unfunded ex_unfunded]
  from L have late: "claimJob (env_at 2 1060) 0 21548 ex_unfunded =
     Inr (ex_unfunded\<lparr>jobs := [ex_late_job],
            events := events ex_unfunded @ [JobClaimed 0 2 21548 200]\<rparr>)"
    by (elim conjE)
  note U = claimJob_postcondition [of "env_at 2 1030" 0 21548 ex_unfunded ex_unfunded]
  from U pre(2) have "\<forall>price. getCurrentPrice (env_at 2 1030) 0 ex_unfunded = Inr price \<longrightarrow>
        (price < maxPrice (jobs ex_unfunded ! unat (0::uint256)) \<and>
         balanceOf (clawd ex_unfunded) (this ex_unfunded)
           < unat (maxPrice (jobs ex_unfunded ! unat (0::uint256)) - price) \<longrightarrow>
           claimJob (env_at 2 1030) 0 21548 ex_unfunded = Inl ERC20InsufficientBalance)"
    by (elim conjE) blast
  with g3 m have poor: "claimJob (env_at 2 1030) 0 21548 ex_unfunded = Inl ERC20InsufficientBalance"
    by simp
  from ok g1 js bal g2 late poor show ?thesis by (intro conjI)
qed

text \<open>
  Claim C10 as the specification words it: an open job can be claimed by any caller other than the
  poster at every time after \<open>auctionStart\<close>. The job \<open>cx_long_job\<close>, posted with
  \<open>auctionDuration = 2^256 - 1\<close>, is open, and \<open>claimJob\<close> by agent 2 reverts with
  \<open>Panic(0x11)\<close> at its start, later, and at the last time \<open>uint256\<close> can hold.
\<close>

theorem open_job_stays_claimable_counterexample:
  "postJob (env_at 1 1000) ''Test'' 100 200 max_uint256 300 (deployed 99 ex_token)
     = Inr (0, cx_long_posted) \<and>
   status (jobs cx_long_posted ! 0) = Open \<and>
   claimJob (env_at 2 1000) 0 21548 cx_long_posted = Inl (Panic 17) \<and>
   claimJob (env_at 2 5000) 0 21548 cx_long_posted = Inl (Panic 17) \<and>
   claimJob (env_at 2 max_uint256) 0 21548 cx_long_posted = Inl (Panic 17)"
  by (simp add: postJob_def claimJob_def getCurrentPrice_internal_def checked_add_def
      safeTransferFrom_def erc20_update_def deployed_def ex_token_def cx_defs fun_eq_iff)

text \<open>
  Claim C10, amended: an open job (with \<open>minPrice \<le> maxPrice\<close>, for which the board
  holds \<open>maxPrice\<close> tokens) is never closed by the passage of time. At every time
  \<open>now \<ge> auctionStart\<close> at which the contract's arithmetic does not overflow
  (\<open>price_defined\<close>), however late, \<open>claimJob\<close> by a caller other than the poster
  succeeds and locks the price of that time, which is exactly \<open>maxPrice\<close> once
  \<open>now \<ge> auctionStart + auctionDuration\<close>; and \<open>cancelJob\<close> by the poster succeeds at
  every time and refunds \<open>maxPrice\<close>.
\<close>

theorem open_job_stays_claimable:
  assumes j: "unat jobId < length (jobs w)"
    and st: "status (jobs w ! unat jobId) = Open"
    and mm: "minPrice (jobs w ! unat jobId) \<le> maxPrice (jobs w ! unat jobId)"
    and funds: "unat (maxPrice (jobs w ! unat jobId)) \<le> balanceOf (clawd w) (this w)"
  shows "(msg_sender env \<noteq> poster (jobs w ! unat jobId) \<and>
          price_defined (jobs w ! unat jobId) (block_timestamp env) \<longrightarrow>
           (\<exists>w' price. claimJob env jobId aid w = Inr w' \<and>
              getCurrentPrice env jobId w = Inr price \<and>
              status (jobs w' ! unat jobId) = Claimed \<and>
              agent (jobs w' ! unat jobId) = msg_sender env \<and>
              paidAmount (jobs w' ! unat jobId) = price \<and>
              (unat (auctionStart (jobs w ! unat jobId)) + unat (auctionDuration (jobs w ! unat jobId))
                 \<le> unat (block_timestamp env) \<longrightarrow> price = maxPrice (jobs w ! unat jobId)))) \<and>
         (msg_sender env = poster (jobs w ! unat jobId) \<longrightarrow>
           (\<exists>w'. cancelJob env jobId w = Inr w' \<and> status (jobs w' ! unat jobId) = Cancelled \<and>
              transfers (clawd w') = transfers (clawd w) @
                [(this w, poster (jobs w ! unat jobId), maxPrice (jobs w ! unat jobId))]))"
proof (intro conjI impI)
  let ?job = "jobs w ! unat jobId"
  assume h: "msg_sender env \<noteq> poster ?job \<and> price_defined ?job (block_timestamp env)"
  then have np: "msg_sender env \<noteq> poster ?job" and pd: "price_defined ?job (block_timestamp env)"
    by simp_all
  from price_nat [OF mm pd] obtain p where
    pr: "getCurrentPrice_internal (block_timestamp env) ?job = Inr p"
    and up: "unat p = (if unat (block_timestamp env) < unat (auctionStart ?job) + unat (auctionDuration ?job)
               then unat (minPrice ?job) +
                 (unat (maxPrice ?job) - unat (minPrice ?job)) * (unat (block_timestamp env) - unat (auctionStart ?job))
                   div unat (auctionDuration ?job)
               else unat (maxPrice ?job))" by blast
  have le: "p \<le> maxPrice ?job" by (rule price_Inr_bounds [OF pr])
  have gp: "getCurrentPrice env jobId w = Inr p" using j pr by (simp add: getCurrentPrice_def)
  have "unat (maxPrice ?job - p) \<le> unat (maxPrice ?job)"
    using le by (simp add: unat_sub)
  then have "unat (maxPrice ?job - p) \<le> balanceOf (clawd w) (this w)" using funds by simp
  from safeTransfer_ok [OF this] obtain tok where
    t: "safeTransfer (this w) (poster ?job) (maxPrice ?job - p) (clawd w) = Inr tok" by blast
  define tok' where "tok' = (if p < maxPrice ?job then tok else clawd w)"
  define w' where "w' = w\<lparr>jobs := (jobs w)[unat jobId := ?job
                        \<lparr>status := Claimed, agent := msg_sender env, agentId := aid,
                         claimedAt := block_timestamp env, paidAmount := p\<rparr>],
                      clawd := tok',
                      events := events w @ [JobClaimed jobId (msg_sender env) aid p]\<rparr>"
  have c: "claimJob env jobId aid w = Inr w'"
    unfolding claimJob_unfold [OF j st np pr] w'_def tok'_def using t by simp
  have late: "unat (auctionStart ?job) + unat (auctionDuration ?job) \<le> unat (block_timestamp env)
      \<longrightarrow> p = maxPrice ?job"
  proof
    assume "unat (auctionStart ?job) + unat (auctionDuration ?job) \<le> unat (block_timestamp env)"
    then have "unat p = unat (maxPrice ?job)" using up by simp
    then show "p = maxPrice ?job" by (rule unat_word_eqI)
  qed
  have "status (jobs w' ! unat jobId) = Claimed \<and> agent (jobs w' ! unat jobId) = msg_sender env \<and>
        paidAmount (jobs w' ! unat jobId) = p"
    using j by (simp add: w'_def)
  with c gp late
  show "\<exists>w' price. claimJob env jobId aid w = Inr w' \<and>
              getCurrentPrice env jobId w = Inr price \<and>
              status (jobs w' ! unat jobId) = Claimed \<and>
              agent (jobs w' ! unat jobId) = msg_sender env \<and>
              paidAmount (jobs w' ! unat jobId) = price \<and>
              (unat (auctionStart ?job) + unat (auctionDuration ?job)
                 \<le> unat (block_timestamp env) \<longrightarrow> price = maxPrice ?job)"
    by blast
next
  let ?job = "jobs w ! unat jobId"
  assume sp: "msg_sender env = poster ?job"
  from funds obtain tok where
    t: "safeTransfer (this w) (poster ?job) (maxPrice ?job) (clawd w) = Inr tok"
    and tr: "transfers tok = transfers (clawd w) @ [(this w, poster ?job, maxPrice ?job)]"
    by (simp add: safeTransfer_Inr)
  show "\<exists>w'. cancelJob env jobId w = Inr w' \<and> status (jobs w' ! unat jobId) = Cancelled \<and>
      transfers (clawd w') = transfers (clawd w) @ [(this w, poster ?job, maxPrice ?job)]"
    unfolding cancelJob_unfold [OF j st sp] using t tr j by simp
qed

text \<open>
  Claim C10, witness: the example job, long after its auction of 60 seconds has ended,
  is claimed by agent 2 at 200, or cancelled by its poster.
\<close>

theorem open_job_stays_claimable_witness:
  "(\<exists>w'. claimJob (env_at 2 999999) 0 21548 ex_posted = Inr w' \<and>
      status (jobs w' ! 0) = Claimed \<and> agent (jobs w' ! 0) = 2 \<and> paidAmount (jobs w' ! 0) = 200) \<and>
   (\<exists>w'. cancelJob (env_at 1 999999) 0 ex_posted = Inr w' \<and> status (jobs w' ! 0) = Cancelled)"
proof -
  have pd: "price_defined (jobs ex_posted ! unat (0::uint256)) (block_timestamp (env_at 2 999999))"
    by (simp add: price_defined_def ex_defs)
  have a: "unat (0::uint256) < length (jobs ex_posted)"
    and b: "status (jobs ex_posted ! unat (0::uint256)) = Open"
    and c: "minPrice (jobs ex_posted ! unat (0::uint256)) \<le> maxPrice (jobs ex_posted ! unat (0::uint256))"
    and d: "unat (maxPrice (jobs ex_posted ! unat (0::uint256))) \<le> balanceOf (clawd ex_posted) (this ex_posted)"
    by (simp_all add: ex_defs)
  have e: "msg_sender (env_at 2 999999) \<noteq> poster (jobs ex_posted ! unat (0::uint256))"
    and f: "msg_sender (env_at 1 999999) = poster (jobs ex_posted ! unat (0::uint256))"
    and g: "unat (auctionStart (jobs ex_posted ! unat (0::uint256))) +
            unat (auctionDuration (jobs ex_posted ! unat (0::uint256)))
              \<le> unat (block_timestamp (env_at 2 999999))"
    and h: "maxPrice (jobs ex_posted ! unat (0::uint256)) = 200"
    by (simp_all add: ex_defs)
  from open_job_stays_claimable [OF a b c d, of "env_at 2 999999" 21548] e pd g h
  have 1: "\<exists>w'. claimJob (env_at 2 999999) 0 21548 ex_posted = Inr w' \<and>
      status (jobs w' ! 0) = Claimed \<and> agent (jobs w' ! 0) = 2 \<and> paidAmount (jobs w' ! 0) = 200"
    by (auto simp: env_at_def)
  from open_job_stays_claimable [OF a b c d, of "env_at 1 999999" 0] f
  have 2: "\<exists>w'. cancelJob (env_at 1 999999) 0 ex_posted = Inr w' \<and> status (jobs w' ! 0) = Cancelled"
    by auto
  from 1 2 show ?thesis by blast
qed

section \<open>The work deadline\<close>




section \<open>Approving work\<close>

text \<open>
  Claim C5 as the specification words it: for every submitted job, \<open>approveWork\<close> by the poster
  with a rating in \<open>[0,100]\<close> completes the job unless the payment fails. The contract
  adds to the worker's counters in checked \<open>uint256\<close> arithmetic before it pays. After
  the eleven calls of \<open>cx_rich_trace\<close> on a freshly deployed board, job 2 is submitted,
  the board holds its locked amount \<open>2^255\<close>, and its worker has already earned
  \<open>2^255\<close>: the approval by the poster reverts with \<open>Panic(0x11)\<close>.
\<close>

theorem approveWork_postcondition_counterexample:
  "run cx_rich_trace (deployed 99 cx_rich_token) = cx_rich_agent \<and>
   status (jobs cx_rich_agent ! 2) = Submitted \<and>
   poster (jobs cx_rich_agent ! 2) = 3 \<and>
   unat (paidAmount (jobs cx_rich_agent ! 2)) \<le> balanceOf (clawd cx_rich_agent) (this cx_rich_agent) \<and>
   approveWork (env_at 3 1011) 2 90 cx_rich_agent = Inl (Panic 17)"
proof -
  have r: "run cx_rich_trace (deployed 99 cx_rich_token) = cx_rich_agent"
    by (simp add: cx_rich_trace_def cx_rich_token_def two255_def deployed_def env_at_def
        transact_def postJob_def claimJob_def submitWork_def approveWork_def
        getCurrentPrice_internal_def checked_add_def checked_sub_def checked_mul_def
        checked_div_def safeTransfer_def safeTransferFrom_def erc20_update_def Let_def
        cx_rich_agent_def cx_rich_job_def no_stats_def fun_eq_iff)
  have f: "status (jobs cx_rich_agent ! 2) = Submitted \<and>
     poster (jobs cx_rich_agent ! 2) = 3 \<and>
     unat (paidAmount (jobs cx_rich_agent ! 2)) \<le> balanceOf (clawd cx_rich_agent) (this cx_rich_agent) \<and>
     approveWork (env_at 3 1011) 2 90 cx_rich_agent = Inl (Panic 17)"
    by (simp add: approveWork_def checked_add_def cx_rich_agent_def cx_rich_job_def two255_def
        no_stats_def env_at_def)
  from r f show ?thesis by blast
qed

text \<open>
  Claim C5, amended: for every submitted job, called by the poster with a rating in
  \<open>[0,100]\<close>, and provided the worker's three counters do not overflow \<open>uint256\<close>:
  when the board holds the locked amount, \<open>approveWork\<close> sets the status to
  \<open>Completed\<close>, stores the rating, transfers exactly \<open>paidAmount\<close> from the board to
  the worker, adds 1 to the worker's \<open>completedJobs\<close>, \<open>paidAmount\<close> to
  \<open>totalEarned\<close> and the rating to \<open>totalRating\<close>, leaves every other agent's
  statistics alone, and \<open>getAgentStats\<close> of the worker then returns these counters with
  the average \<open>(totalRating + rating) / (completedJobs + 1)\<close>; when the board does not
  hold the locked amount the payment fails, the call reverts, and status and statistics are
  as before.
\<close>

theorem approveWork_postcondition:
  assumes j: "unat jobId < length (jobs w)"
    and st: "status (jobs w ! unat jobId) = Submitted"
    and sp: "msg_sender env = poster (jobs w ! unat jobId)"
    and rt: "r \<le> 100"
    and c_ok: "unat (completedJobs (agentStats w (agent (jobs w ! unat jobId)))) + 1 < 2 ^ 256"
    and e_ok: "unat (totalEarned (agentStats w (agent (jobs w ! unat jobId)))) +
               unat (paidAmount (jobs w ! unat jobId)) < 2 ^ 256"
    and r_ok: "unat (totalRating (agentStats w (agent (jobs w ! unat jobId)))) + unat r < 2 ^ 256"
  shows "(unat (paidAmount (jobs w ! unat jobId)) \<le> balanceOf (clawd w) (this w) \<longrightarrow>
           (\<exists>w'. approveWork env jobId r w = Inr w' \<and>
              jobs w' = (jobs w)[unat jobId := (jobs w ! unat jobId)\<lparr>status := Completed, rating := r\<rparr>] \<and>
              transfers (clawd w') = transfers (clawd w) @
                [(this w, agent (jobs w ! unat jobId), paidAmount (jobs w ! unat jobId))] \<and>
              (agent (jobs w ! unat jobId) \<noteq> this w \<longrightarrow>
                 balanceOf (clawd w') (this w) =
                   balanceOf (clawd w) (this w) - unat (paidAmount (jobs w ! unat jobId)) \<and>
                 balanceOf (clawd w') (agent (jobs w ! unat jobId)) =
                   balanceOf (clawd w) (agent (jobs w ! unat jobId)) +
                     unat (paidAmount (jobs w ! unat jobId))) \<and>
              unat (completedJobs (agentStats w' (agent (jobs w ! unat jobId)))) =
                unat (completedJobs (agentStats w (agent (jobs w ! unat jobId)))) + 1 \<and>
              unat (totalEarned (agentStats w' (agent (jobs w ! unat jobId)))) =
                unat (totalEarned (agentStats w (agent (jobs w ! unat jobId)))) +
                  unat (paidAmount (jobs w ! unat jobId)) \<and>
              unat (totalRating (agentStats w' (agent (jobs w ! unat jobId)))) =
                unat (totalRating (agentStats w (agent (jobs w ! unat jobId)))) + unat r \<and>
              disputedJobs (agentStats w' (agent (jobs w ! unat jobId))) =
                disputedJobs (agentStats w (agent (jobs w ! unat jobId))) \<and>
              (\<forall>a. a \<noteq> agent (jobs w ! unat jobId) \<longrightarrow> agentStats w' a = agentStats w a) \<and>
              getAgentStats (agent (jobs w ! unat jobId)) w' =
                (completedJobs (agentStats w (agent (jobs w ! unat jobId))) + 1,
                 disputedJobs (agentStats w (agent (jobs w ! unat jobId))),
                 totalEarned (agentStats w (agent (jobs w ! unat jobId))) +
                   paidAmount (jobs w ! unat jobId),
                 (totalRating (agentStats w (agent (jobs w ! unat jobId))) + ucast r) div
                   (completedJobs (agentStats w (agent (jobs w ! unat jobId))) + 1)) \<and>
              unat (snd (snd (snd (getAgentStats (agent (jobs w ! unat jobId)) w')))) =
                (unat (totalRating (agentStats w (agent (jobs w ! unat jobId)))) + unat r) div
                (unat (completedJobs (agentStats w (agent (jobs w ! unat jobId)))) + 1))) \<and>
         (balanceOf (clawd w) (this w) < unat (paidAmount (jobs w ! unat jobId)) \<longrightarrow>
            approveWork env jobId r w = Inl ERC20InsufficientBalance \<and>
            transact env (ApproveWork jobId r) w = w)"
proof -
  let ?job = "jobs w ! unat jobId"
  let ?st = "agentStats w (agent ?job)"
  have one: "unat (1::uint256) = 1" by simp
  have c: "checked_add (completedJobs ?st) 1 = Inr (completedJobs ?st + 1)"
    and uc: "unat (completedJobs ?st + 1) = unat (completedJobs ?st) + 1"
    using checked_add_ok [of "completedJobs ?st" 1] c_ok by simp_all
  have e: "checked_add (totalEarned ?st) (paidAmount ?job) = Inr (totalEarned ?st + paidAmount ?job)"
    and ue: "unat (totalEarned ?st + paidAmount ?job) = unat (totalEarned ?st) + unat (paidAmount ?job)"
    using checked_add_ok [OF e_ok] by simp_all
  have r': "unat (totalRating ?st) + unat (ucast r :: uint256) < 2 ^ 256"
    using r_ok by (simp only: ucast_rating)
  have r: "checked_add (totalRating ?st) (ucast r) = Inr (totalRating ?st + ucast r)"
    and ur: "unat (totalRating ?st + ucast r) = unat (totalRating ?st) + unat r"
    using checked_add_ok [OF r'] by (simp_all add: ucast_rating)
  have pos: "0 < completedJobs ?st + 1"
    using uc by (simp add: word_less_nat_alt)
  have unf: "approveWork env jobId r w =
     and_then (safeTransfer (this w) (agent ?job) (paidAmount ?job) (clawd w)) (\<lambda>tok.
        Inr (w\<lparr>jobs := (jobs w)[unat jobId := ?job\<lparr>status := Completed, rating := r\<rparr>],
               agentStats := (agentStats w)(agent ?job :=
                 ?st\<lparr>completedJobs := completedJobs ?st + 1,
                      totalEarned := totalEarned ?st + paidAmount ?job,
                      totalRating := totalRating ?st + ucast r\<rparr>),
               clawd := tok,
               events := events w @ [WorkApproved jobId r (paidAmount ?job)]\<rparr>))"
    using j st sp rt by (simp add: approveWork_def Let_def c e r)
  show ?thesis
  proof (intro conjI impI)
    assume funds: "unat (paidAmount ?job) \<le> balanceOf (clawd w) (this w)"
    then show "\<exists>w'. approveWork env jobId r w = Inr w' \<and>
              jobs w' = (jobs w)[unat jobId := ?job\<lparr>status := Completed, rating := r\<rparr>] \<and>
              transfers (clawd w') = transfers (clawd w) @ [(this w, agent ?job, paidAmount ?job)] \<and>
              (agent ?job \<noteq> this w \<longrightarrow>
                 balanceOf (clawd w') (this w) = balanceOf (clawd w) (this w) - unat (paidAmount ?job) \<and>
                 balanceOf (clawd w') (agent ?job) =
                   balanceOf (clawd w) (agent ?job) + unat (paidAmount ?job)) \<and>
              unat (completedJobs (agentStats w' (agent ?job))) = unat (completedJobs ?st) + 1 \<and>
              unat (totalEarned (agentStats w' (agent ?job))) =
                unat (totalEarned ?st) + unat (paidAmount ?job) \<and>
              unat (totalRating (agentStats w' (agent ?job))) = unat (totalRating ?st) + unat r \<and>
              disputedJobs (agentStats w' (agent ?job)) = disputedJobs ?st \<and>
              (\<forall>a. a \<noteq> agent ?job \<longrightarrow> agentStats w' a = agentStats w a) \<and>
              getAgentStats (agent ?job) w' =
                (completedJobs ?st + 1, disputedJobs ?st, totalEarned ?st + paidAmount ?job,
                 (totalRating ?st + ucast r) div (completedJobs ?st + 1)) \<and>
              unat (snd (snd (snd (getAgentStats (agent ?job) w')))) =
                (unat (totalRating ?st) + unat r) div (unat (completedJobs ?st) + 1)"
      unfolding unf using pos uc ue ur
      by (simp add: safeTransfer_def erc20_update_def Let_def getAgentStats_def unat_div)
  next
    assume "balanceOf (clawd w) (this w) < unat (paidAmount ?job)"
    then show "approveWork env jobId r w = Inl ERC20InsufficientBalance"
      unfolding unf by (simp add: safeTransfer_def erc20_update_def)
    then show "transact env (ApproveWork jobId r) w = w"
      by (simp add: transact_def)
  qed
qed

text \<open>
  Claim C5, witness: the approval of the submitted example with rating 90 pays 150 to
  agent 2; with a token in which the board holds nothing, the same call reverts.
\<close>

theorem approveWork_postcondition_witness:
  "approveWork (env_at 1 1200) 0 90 ex_submitted = Inr ex_completed \<and>
   getAgentStats 2 ex_completed = (1, 0, 150, 90) \<and>
   balanceOf (clawd ex_completed) 2 = balanceOf (clawd ex_submitted) 2 + 150 \<and>
   approveWork (env_at 1 1200) 0 90 (ex_submitted\<lparr>clawd := ex_token\<rparr>) = Inl ERC20InsufficientBalance \<and>
   transact (env_at 1 1200) (ApproveWork 0 90) (ex_submitted\<lparr>clawd := ex_token\<rparr>)
     = ex_submitted\<lparr>clawd := ex_token\<rparr>"
proof -
  have ok: "approveWork (env_at 1 1200) 0 90 ex_submitted = Inr ex_completed"
    by (simp add: approveWork_def checked_add_def safeTransfer_def erc20_update_def ex_defs fun_eq_iff)
  have 1: "getAgentStats 2 ex_completed = (1, 0, 150, 90) \<and>
     balanceOf (clawd ex_completed) 2 = balanceOf (clawd ex_submitted) 2 + 150"
    using approveWork_postcondition [of 0 ex_submitted "env_at 1 1200" 90] ok
    by (simp add: ex_defs)
  have 2: "approveWork (env_at 1 1200) 0 90 (ex_submitted\<lparr>clawd := ex_token\<rparr>) = Inl ERC20InsufficientBalance \<and>
     transact (env_at 1 1200) (ApproveWork 0 90) (ex_submitted\<lparr>clawd := ex_token\<rparr>)
       = ex_submitted\<lparr>clawd := ex_token\<rparr>"
    using approveWork_postcondition [of 0 "ex_submitted\<lparr>clawd := ex_token\<rparr>" "env_at 1 1200" 90]
    by (simp add: ex_defs)
  from ok 1 2 show ?thesis by blast
qed

section \<open>Races for a claim\<close>

text \<open>
  Claim C8 as the specification words it: of \<open>N\<close> concurrent \<open>claimJob\<close> calls on the same
  open job exactly one succeeds, and each of the other \<open>N - 1\<close> fails with "Job not open".
  The chain runs the calls of a block one after another, each to its end, so the \<open>N\<close> calls
  are a sequence in some order. On the posted example, which is open: when the poster is
  the first of three racers, its call fails with "Poster cannot claim own job", not with
  "Job not open"; when the only two racers are calls of the poster, no call succeeds. On
  the open job \<open>cx_long_job\<close>, posted with \<open>auctionDuration = 2^256 - 1\<close>, all three
  racers fail with \<open>Panic(0x11)\<close> and nobody wins.
\<close>

theorem claim_exclusive_counterexample:
  "status (jobs ex_posted ! 0) = Open \<and>
   outcomes (claim_calls 0 cx_race_poster) ex_posted
     = [Some (Require ''Poster cannot claim own job''), None, Some (Require ''Job not open'')] \<and>
   outcomes (claim_calls 0 cx_race_posters) ex_posted
     = [Some (Require ''Poster cannot claim own job''),
        Some (Require ''Poster cannot claim own job'')] \<and>
   status (jobs cx_long_posted ! 0) = Open \<and>
   outcomes (claim_calls 0 ex_race) cx_long_posted
     = [Some (Panic 17), Some (Panic 17), Some (Panic 17)]"
proof -
  have a: "status (jobs ex_posted ! 0) = Open" by (simp add: ex_defs)
  have b: "status (jobs cx_long_posted ! 0) = Open" by (simp add: cx_defs)
  from a b cx_race_poster_outcomes cx_race_posters_outcomes cx_race_long_outcomes
  show ?thesis by (intro conjI)
qed



section \<open>Terminal states\<close>

text \<open>
  Claim C4 as the specification words it: every mutating call on a job in a terminal state fails
  with the state error of that operation. \<open>approveWork\<close>, \<open>disputeWork\<close>, \<open>cancelJob\<close>
  and \<open>submitWork\<close> check the caller before the status: on the completed example,
  called by agent 3 (neither its poster nor its worker), they fail with the caller's
  error ("Only poster can approve", "Only poster can cancel", "Only assigned agent") and
  not with "Job not submitted", "Job not open" or "Job not claimed".
\<close>

theorem terminal_absorbing_counterexample:
  "approveWork (env_at 1 1200) 0 90 ex_submitted = Inr ex_completed \<and>
   terminal (status (jobs ex_completed ! 0)) \<and>
   approveWork (env_at 3 2000) 0 90 ex_completed = Inl (Require ''Only poster can approve'') \<and>
   cancelJob (env_at 3 2000) 0 ex_completed = Inl (Require ''Only poster can cancel'') \<and>
   submitWork (env_at 3 2000) 0 ''ipfs://y'' ex_completed = Inl (Require ''Only assigned agent'')"
  by (simp add: approveWork_def cancelJob_def submitWork_def checked_add_def safeTransfer_def
      erc20_update_def ex_defs fun_eq_iff)

text \<open>
  Claim C4, amended: terminal states are absorbing. For every job whose status is
  \<open>Completed\<close>, \<open>Disputed\<close>, \<open>Expired\<close> or \<open>Cancelled\<close>, every call of \<open>claimJob\<close>,
  \<open>submitWork\<close>, \<open>approveWork\<close>, \<open>disputeWork\<close>, \<open>cancelJob\<close> or \<open>expireJob\<close> on it
  fails: \<open>claimJob\<close> and \<open>expireJob\<close> with their state error; \<open>approveWork\<close>,
  \<open>disputeWork\<close> and \<open>cancelJob\<close> with their state error when the caller is the poster
  and with "Only poster can ..." otherwise; \<open>submitWork\<close> with its state error when the
  caller is the job's agent and with "Only assigned agent" otherwise. Such a call changes
  nothing (no field of any job, no token balance, no statistics, no event), and no run of
  calls whatsoever changes the job's record again, so it never re-enters \<open>Open\<close>,
  \<open>Claimed\<close> or \<open>Submitted\<close>.
\<close>

theorem terminal_absorbing:
  assumes j: "unat jobId < length (jobs w)" and tm: "terminal (status (jobs w ! unat jobId))"
  shows "claimJob env jobId aid w = Inl (Require ''Job not open'') \<and>
     expireJob env jobId w = Inl (Require ''Job not in claimed state'') \<and>
     approveWork env jobId r w =
       Inl (Require (if msg_sender env = poster (jobs w ! unat jobId)
                     then ''Job not submitted'' else ''Only poster can approve'')) \<and>
     disputeWork env jobId w =
       Inl (Require (if msg_sender env = poster (jobs w ! unat jobId)
                     then ''Job not submitted'' else ''Only poster can dispute'')) \<and>
     cancelJob env jobId w =
       Inl (Require (if msg_sender env = poster (jobs w ! unat jobId)
                     then ''Job not open'' else ''Only poster can cancel'')) \<and>
     submitWork env jobId uri w =
       Inl (Require (if msg_sender env = agent (jobs w ! unat jobId)
                     then ''Job not claimed'' else ''Only assigned agent'')) \<and>
     (\<forall>c. target c = Some jobId \<longrightarrow> transact env c w = w) \<and>
     (\<forall>cs. unat jobId < length (jobs (run cs w)) \<and>
           jobs (run cs w) ! unat jobId = jobs w ! unat jobId)"
proof -
  have a: "\<forall>c. target c = Some jobId \<longrightarrow> transact env c w = w"
  proof (intro allI impI)
    fix c assume "target c = Some jobId"
    from terminal_exec_fails [OF j tm this, of env] show "transact env c w = w"
      by (auto simp: transact_def)
  qed
  have b: "\<forall>cs. unat jobId < length (jobs (run cs w)) \<and>
           jobs (run cs w) ! unat jobId = jobs w ! unat jobId"
    using terminal_run [OF j tm] by blast
  from terminal_errors [OF j tm] a b show ?thesis by simp
qed

text \<open>
  Claim C4, witness: calls on the completed example by its poster (1) and by a stranger
  (3), and a run of three more calls.
\<close>

theorem terminal_absorbing_witness:
  "claimJob (env_at 3 2000) 0 7 ex_completed = Inl (Require ''Job not open'') \<and>
   approveWork (env_at 1 2000) 0 90 ex_completed = Inl (Require ''Job not submitted'') \<and>
   approveWork (env_at 3 2000) 0 90 ex_completed = Inl (Require ''Only poster can approve'') \<and>
   transact (env_at 1 2000) (DisputeWork 0) ex_completed = ex_completed \<and>
   jobs (run [(env_at 1 2000, CancelJob 0), (env_at 2 2001, SubmitWork 0 ''ipfs://y''),
              (env_at 3 2002, ExpireJob 0)] ex_completed) ! 0 = jobs ex_completed ! 0"
proof -
  have a: "unat (0::uint256) < length (jobs ex_completed)"
    and b: "terminal (status (jobs ex_completed ! unat (0::uint256)))"
    by (simp_all add: ex_defs)
  have 1: "msg_sender (env_at 1 2000) = poster (jobs ex_completed ! unat (0::uint256))"
    and 3: "msg_sender (env_at 3 2000) \<noteq> poster (jobs ex_completed ! unat (0::uint256))"
    by (simp_all add: ex_defs)
  from terminal_absorbing [OF a b, of "env_at 3 2000" 7 90 "''ipfs://y''"] 3
  have c: "claimJob (env_at 3 2000) 0 7 ex_completed = Inl (Require ''Job not open'')"
    and d: "approveWork (env_at 3 2000) 0 90 ex_completed = Inl (Require ''Only poster can approve'')"
    by simp_all
  note T = terminal_absorbing [OF a b, of "env_at 1 2000" 7 90 "''ipfs://y''"]
  from T 1 have e: "approveWork (env_at 1 2000) 0 90 ex_completed = Inl (Require ''Job not submitted'')"
    by simp
  from T have f: "transact (env_at 1 2000) (DisputeWork 0) ex_completed = ex_completed"
    by simp
  from T have "jobs (run [(env_at 1 2000, CancelJob 0), (env_at 2 2001, SubmitWork 0 ''ipfs://y''),
              (env_at 3 2002, ExpireJob 0)] ex_completed) ! unat (0::uint256)
         = jobs ex_completed ! unat (0::uint256)"
    by blast
  then have g: "jobs (run [(env_at 1 2000, CancelJob 0), (env_at 2 2001, SubmitWork 0 ''ipfs://y''),
              (env_at 3 2002, ExpireJob 0)] ex_completed) ! 0 = jobs ex_completed ! 0"
    by simp
  from c d e f g show ?thesis by blast
qed

section \<open>Agent statistics\<close>

text \<open>
  Claim C9 as the specification words it: without completed jobs the average is undefined and
  reported as "no rating". \<open>getAgentStats\<close> reports the number 0 then, the same
  average it reports for an agent whose only job was rated 0: after the poster approves
  the example job with rating 0, agent 2 (one completed job) and agent 3 (none) both have
  \<open>avgRating = 0\<close>.
\<close>

theorem getAgentStats_average_counterexample:
  "approveWork (env_at 1 1200) 0 0 ex_submitted = Inr cx_zero_rated \<and>
   completedJobs (agentStats cx_zero_rated 2) = 1 \<and>
   snd (snd (snd (getAgentStats 2 cx_zero_rated))) = 0 \<and>
   completedJobs (agentStats cx_zero_rated 3) = 0 \<and>
   snd (snd (snd (getAgentStats 3 cx_zero_rated))) = 0"
  by (simp add: approveWork_def checked_add_def safeTransfer_def erc20_update_def getAgentStats_def
      cx_zero_rated_def ex_defs fun_eq_iff)

text \<open>
  Claim C9, amended: \<open>getAgentStats\<close> returns the stored counters and computes the
  average at query time from \<open>totalRating\<close> and \<open>completedJobs\<close> (the statistics record
  has no field for an average): \<open>totalRating / completedJobs\<close>, rounded down, when
  \<open>completedJobs > 0\<close>, and 0 when \<open>completedJobs = 0\<close>.
\<close>

theorem getAgentStats_average:
  "getAgentStats a w =
     (completedJobs (agentStats w a), disputedJobs (agentStats w a), totalEarned (agentStats w a),
      snd (snd (snd (getAgentStats a w)))) \<and>
   (0 < completedJobs (agentStats w a) \<longrightarrow>
      unat (snd (snd (snd (getAgentStats a w)))) =
        unat (totalRating (agentStats w a)) div unat (completedJobs (agentStats w a))) \<and>
   (completedJobs (agentStats w a) = 0 \<longrightarrow> snd (snd (snd (getAgentStats a w))) = 0)"
  by (simp add: getAgentStats_def Let_def unat_div)

text \<open>
  Claim C9, witness: after the example job is approved with rating 90, agent 2 has one
  completed job and average 90, agent 3 has none and average 0.
\<close>

theorem getAgentStats_average_witness:
  "getAgentStats 2 ex_completed = (1, 0, 150, 90) \<and> getAgentStats 3 ex_completed = (0, 0, 0, 0)"
  using getAgentStats_average [of 2 ex_completed] getAgentStats_average [of 3 ex_completed]
  by (simp add: getAgentStats_def ex_defs)

end
